theory Spec2Isabelle
  imports Complex_Main "HOL-Library.AList"
begin

section \<open>Portfolio optimisation orchestration layer (optimizer\_model.py)\<close>

text \<open>
  A shallow embedding of \<^verbatim>\<open>openbb_terminal/portfolio/portfolio_optimization/optimizer_model.py\<close>.

  Conventions of the embedding.
  \<^item> A Python float is a binary64 number; it is modelled as the \<^typ>\<open>real\<close> it stands for.
    The arithmetic that the module itself does on floats, with Python's operators
    \<^verbatim>\<open>+\<close>, \<^verbatim>\<open>-\<close>, \<^verbatim>\<open>*\<close>, \<^verbatim>\<open>/\<close>, \<^verbatim>\<open>**\<close> and with \<^verbatim>\<open>round\<close>, rounds every exact result to
    binary64 (\<open>fl\<close>: to the nearest number, ties to the even one, subnormal numbers
    included). A result beyond the largest binary64 number, which Python turns into inf, is
    outside the model.
  \<^item> The arithmetic inside numpy, pandas and the engine (sums, quotients and roundings of whole
    arrays and tables) belongs to those libraries and is kept exact. The one place where it
    differs in kind from the reals, numpy's division by zero (which yields inf or nan and
    does not raise), is written out with the type \<open>npfloat\<close>.
  \<^item> Python exceptions are values of the type \<open>error\<close>; a function that can raise returns
    \<open>error + 'a\<close>, with \<open>Inl\<close> the exception.
  \<^item> The collaborators that are imported by the module and not part of it (the return-series
    provider \<^verbatim>\<open>yahoo_finance_model\<close>, the \<^verbatim>\<open>riskfolio\<close> engine, the ticker attribute
    source \<^verbatim>\<open>yf.Ticker\<close>, numpy's random state) are parameters, bundled in records of
    functions.
  \<^item> The keyword arguments \<^verbatim>\<open>period, start, end, log_returns, freq, maxnan, threshold, method\<close>,
    which every entry point forwards unchanged to the provider, are bundled in the record
    \<open>fetch_opts\<close>; all other arguments are curried in the order of the Python signature.
\<close>

subsection \<open>Python and numpy primitives\<close>

datatype error = KeyError string | ValueError | AttributeError

text \<open>\<^verbatim>\<open>d[k]\<close> on a dict: raises \<^verbatim>\<open>KeyError(k)\<close> when the key is absent.\<close>

definition getitem :: "(string \<rightharpoonup> 'v) \<Rightarrow> string \<Rightarrow> error + 'v" where
  "getitem d k = (case d k of None \<Rightarrow> Inl (KeyError k) | Some v \<Rightarrow> Inr v)"

text \<open>\<^verbatim>\<open>str.upper()\<close>, on ASCII strings: the letters a to z are mapped to A to Z, every
  other character is kept.\<close>

definition upper_char :: "char \<Rightarrow> char" where
  "upper_char c =
     (case map_of (zip ''abcdefghijklmnopqrstuvwxyz'' ''ABCDEFGHIJKLMNOPQRSTUVWXYZ'') c of
        Some u \<Rightarrow> u
      | None \<Rightarrow> c)"

definition upper :: "string \<Rightarrow> string" where
  "upper s = map upper_char s"

text \<open>The integer nearest to a real, ties going to the even integer.\<close>

definition round_half_even :: "real \<Rightarrow> int" where
  "round_half_even y =
     (let f = \<lfloor>y\<rfloor>;
          d = y - of_int f
      in if d < 1 / 2 then f else if d > 1 / 2 then f + 1 else if even f then f else f + 1)"

text \<open>Rounding to binary64. A number \<open>x\<close> with \<open>2 ^ e \<le> \<bar>x\<bar> < 2 ^ (e + 1)\<close> is rounded to the
  nearest multiple of \<open>2 ^ (e - 52)\<close> (53 significant bits), ties to the even multiple; below
  \<open>2 ^ emin\<close>, in the subnormal range, the spacing stays \<open>2 ^ (emin - 52) = 2 ^ - 1074\<close>.\<close>

definition emin :: int where
  "emin = - 1022"


definition fl :: "real \<Rightarrow> real" where
  "fl x =
     (if x = 0 then 0
      else let q = max \<lfloor>log 2 \<bar>x\<bar>\<rfloor> emin - 52
           in of_int (round_half_even (x / 2 powi q)) * 2 powi q)"

text \<open>Python's \<^verbatim>\<open>x + y\<close>, \<^verbatim>\<open>x - y\<close>, \<^verbatim>\<open>x * y\<close> and \<^verbatim>\<open>x / y\<close> on floats (an int operand is
  converted first; \<^verbatim>\<open>/\<close> on two ints is the correctly rounded quotient as well): the exact
  result, rounded. \<^verbatim>\<open>x ** y\<close> with a float exponent is C's \<^verbatim>\<open>pow\<close>, which returns the
  correctly rounded power at the arguments the module gives it (the three factors of
  \<open>time_factor\<close> and the exponent 0.5). Division by zero raises in Python; the module
  divides by a factor of \<open>time_factor\<close>, by the length of a list that is not empty, and by
  a sum it has tested.\<close>

definition fadd :: "real \<Rightarrow> real \<Rightarrow> real" where
  "fadd x y = fl (x + y)"

definition fsub :: "real \<Rightarrow> real \<Rightarrow> real" where
  "fsub x y = fl (x - y)"

definition fmul :: "real \<Rightarrow> real \<Rightarrow> real" where
  "fmul x y = fl (x * y)"

definition fdiv :: "real \<Rightarrow> real \<Rightarrow> real" where
  "fdiv x y = fl (x / y)"

definition fpow :: "real \<Rightarrow> real \<Rightarrow> real" where
  "fpow x y = fl (x powr y)"

text \<open>Rounding to \<open>ndigits\<close> decimal places on the reals: the nearest multiple of
  \<open>10 ^ - ndigits\<close>, ties going to the even multiple. This is \<^verbatim>\<open>.round(ndigits)\<close> of pandas,
  kept exact.\<close>

definition decimal_round :: "real \<Rightarrow> nat \<Rightarrow> real" where
  "decimal_round x ndigits = of_int (round_half_even (x * 10 ^ ndigits)) / 10 ^ ndigits"

text \<open>\<^verbatim>\<open>round(x, ndigits)\<close> of Python on a float: the exact value of the float is rounded to
  \<open>ndigits\<close> decimal places, ties to even, and the decimal result is converted to the nearest
  float.\<close>

definition py_round :: "real \<Rightarrow> nat \<Rightarrow> real" where
  "py_round x ndigits = fl (decimal_round x ndigits)"

text \<open>\<^verbatim>\<open>int(x)\<close> on a float: truncation towards zero.\<close>

definition py_int :: "real \<Rightarrow> int" where
  "py_int x = (if 0 \<le> x then \<lfloor>x\<rfloor> else \<lceil>x\<rceil>)"

text \<open>A numpy float: a finite value, or one of inf, -inf, nan (not told apart here).
  numpy's true division does not raise on a zero divisor: it yields a non-finite value.\<close>

datatype npfloat = Finite real | NonFinite

definition np_div :: "real \<Rightarrow> real \<Rightarrow> npfloat" where
  "np_div x s = (if s = 0 then NonFinite else Finite (x / s))"

subsection \<open>Data model\<close>

text \<open>The return matrix and the price table: one column per asset, a series of values each.
  The table of weights the engine returns: one row per asset, a single column.
  A Python dict is an association list in insertion order, written with \<^const>\<open>AList.update\<close>
  and read with \<^const>\<open>map_of\<close>.\<close>

type_synonym returns = "(string \<times> real list) list"
type_synonym prices = "(string \<times> real list) list"
type_synonym weights = "(string \<times> real) list"

record fetch_opts =
  period :: string
  start :: string
  "end" :: string
  log_returns :: bool
  freq :: string
  maxnan :: real
  threshold :: real
  "method" :: string

text \<open>The attributes of a \<^verbatim>\<open>Portfolio.Portfolio\<close> object that this module reads or writes.
  \<open>attrs\<close> holds the attributes written through \<^verbatim>\<open>setattr\<close> under a computed name; the
  names of the table \<open>upper_risk\<close> are all different from the attributes named here.\<close>

record port =
  port_returns :: returns
  port_alpha :: "real option"
  mu :: "(string \<times> npfloat) list"
  cov :: "real list list"
  sht :: bool
  upperlng :: real
  uppersht :: real
  budget :: real
  lowerret :: "real option"
  attrs :: "string \<rightharpoonup> real"

definition setattr :: "port \<Rightarrow> string \<Rightarrow> real \<Rightarrow> port" where
  "setattr p name v = p\<lparr>attrs := (attrs p)(name \<mapsto> v)\<rparr>"

text \<open>An \<^verbatim>\<open>HCPortfolio.HCPortfolio\<close> object: the constructor arguments
  \<^verbatim>\<open>returns, alpha, a_sim, beta, b_sim\<close>.\<close>

datatype hcportfolio = HCPortfolio returns real int "real option" "int option"

subsection \<open>Collaborators\<close>

text \<open>The return-series provider \<^verbatim>\<open>yahoo_finance_model\<close>.\<close>

record provider =
  process_stocks :: "string list \<Rightarrow> string \<Rightarrow> string \<Rightarrow> string \<Rightarrow> prices"
  process_returns :: "prices \<Rightarrow> bool \<Rightarrow> string \<Rightarrow> real \<Rightarrow> real \<Rightarrow> string \<Rightarrow> returns"

text \<open>The riskfolio engine. \<open>Portfolio\<close> is the constructor (returns, alpha; alpha absent when
  the caller leaves the default). \<open>assets_stats\<close> takes \<^verbatim>\<open>method_mu, method_cov, d\<close>.
  \<open>optimization\<close> takes \<^verbatim>\<open>model, rm, obj, rf, l, hist\<close> (l absent when the caller leaves
  the default), \<open>rp_optimization\<close> takes \<^verbatim>\<open>model, rm, rf, b, hist\<close>, \<open>rrp_optimization\<close>
  takes \<^verbatim>\<open>model, version, l, b, hist\<close>, and \<open>hc_optimization\<close> takes
  \<^verbatim>\<open>model, codependence, covariance, obj, rm, rf, l, linkage, k, max_k, bins_info,
  alpha_tail, leaf_order, d\<close>. Each optimisation returns a table of weights or \<^verbatim>\<open>None\<close>.\<close>

record riskfolio =
  Portfolio :: "returns \<Rightarrow> real option \<Rightarrow> port"
  assets_stats :: "port \<Rightarrow> string \<Rightarrow> string \<Rightarrow> real \<Rightarrow> port"
  optimization ::
    "port \<Rightarrow> string \<Rightarrow> string \<Rightarrow> string \<Rightarrow> real \<Rightarrow> real option \<Rightarrow> bool \<Rightarrow> weights option"
  rp_optimization ::
    "port \<Rightarrow> string \<Rightarrow> string \<Rightarrow> real \<Rightarrow> npfloat list option \<Rightarrow> bool \<Rightarrow> weights option"
  rrp_optimization ::
    "port \<Rightarrow> string \<Rightarrow> string \<Rightarrow> real \<Rightarrow> npfloat list option \<Rightarrow> bool \<Rightarrow> weights option"
  cov2corr :: "real list list \<Rightarrow> real list list"
  hc_optimization ::
    "hcportfolio \<Rightarrow> string \<Rightarrow> string \<Rightarrow> string \<Rightarrow> string \<Rightarrow> string \<Rightarrow> real \<Rightarrow> real \<Rightarrow> string
       \<Rightarrow> int \<Rightarrow> int \<Rightarrow> string \<Rightarrow> real \<Rightarrow> bool \<Rightarrow> real \<Rightarrow> weights option"

subsection \<open>Module tables\<close>

definition upper_risk :: "string \<rightharpoonup> string" where
  "upper_risk = map_of
     [(''MV'', ''upperdev''),
      (''MAD'', ''uppermad''),
      (''MSV'', ''uppersdev''),
      (''FLPM'', ''upperflpm''),
      (''SLPM'', ''upperslpm''),
      (''CVaR'', ''upperCVaR''),
      (''EVaR'', ''upperEVaR''),
      (''WR'', ''upperwr''),
      (''MDD'', ''uppermdd''),
      (''ADD'', ''upperadd''),
      (''CDaR'', ''upperCDaR''),
      (''EDaR'', ''upperEDaR''),
      (''UCI'', ''upperuci'')]"

definition time_factor :: "string \<rightharpoonup> real" where
  "time_factor = map_of [(''D'', 252), (''W'', 52), (''M'', 12)]"

subsection \<open>Blocks shared by the entry points\<close>

text \<open>The first two statements of every entry point that fetches data:
  \<^verbatim>\<open>stock_prices = process_stocks(stocks, period, start, end)\<close> and
  \<^verbatim>\<open>stock_returns = process_returns(stock_prices, log_returns=..., freq=freq, ...)\<close>.\<close>

definition fetch_returns :: "provider \<Rightarrow> string list \<Rightarrow> fetch_opts \<Rightarrow> returns" where
  "fetch_returns yfm stocks opts =
     (let stock_prices = process_stocks yfm stocks (period opts) (start opts) (end opts)
      in process_returns yfm stock_prices (log_returns opts) (freq opts) (maxnan opts)
           (threshold opts) (method opts))"

text \<open>The block under the comment \<^verbatim>\<open># Budget constraints\<close>, the same text in
  \<^verbatim>\<open>get_mean_risk_portfolio\<close>, \<^verbatim>\<open>get_max_diversification_portfolio\<close> and
  \<^verbatim>\<open>get_max_decorrelation_portfolio\<close>.\<close>

definition budget_constraints :: "port \<Rightarrow> real \<Rightarrow> real \<Rightarrow> port" where
  "budget_constraints p value value_short =
     (let p = p\<lparr>upperlng := value\<rparr>
      in if value_short > 0
         then p\<lparr>sht := True, uppersht := value_short, budget := fsub value value_short\<rparr>
         else p\<lparr>budget := value\<rparr>)"

text \<open>\<^verbatim>\<open>weights.round(5)\<close> on the table of weights.\<close>

definition round_weights :: "weights \<Rightarrow> weights" where
  "round_weights w = map (\<lambda>(k, v). (k, decimal_round v 5)) w"

text \<open>\<^verbatim>\<open>value * weights\<close> on the table of weights.\<close>

definition scale_weights :: "real \<Rightarrow> weights \<Rightarrow> weights" where
  "scale_weights value w = map (\<lambda>(k, v). (k, value * v)) w"

text \<open>\<^verbatim>\<open>weights.squeeze().to_dict()\<close>: a table of one row and one column squeezes to a
  scalar, which has no \<^verbatim>\<open>to_dict\<close>; any other one-column table squeezes to a series, whose
  dict keeps, for a repeated label, the first position and the last value.\<close>

definition squeeze_to_dict :: "weights \<Rightarrow> error + weights" where
  "squeeze_to_dict w =
     (if length w = 1 then Inl AttributeError
      else Inr (foldl (\<lambda>d (k, v). AList.update k v d) [] w))"

text \<open>The risk-contribution block of the two risk-parity entry points:
  \<^verbatim>\<open>risk_cont_ = np.array(risk_cont).reshape(1, -1)\<close> followed by
  \<^verbatim>\<open>risk_cont_ = risk_cont_ / np.sum(risk_cont_)\<close>, or \<^verbatim>\<open>None\<close> when no vector is given.\<close>

definition normalize_risk_cont :: "real list option \<Rightarrow> npfloat list option" where
  "normalize_risk_cont risk_cont =
     (case risk_cont of
        None \<Rightarrow> None
      | Some rc \<Rightarrow> Some (map (\<lambda>x. np_div x (sum_list rc)) rc))"

subsection \<open>pandas and numpy helpers of the later entry points\<close>

text \<open>\<^verbatim>\<open>stock_returns.std().to_frame().T\<close>: the sample standard deviation of every column
  (pandas divides by \<open>n - 1\<close>; with fewer than two observations the value is nan).\<close>

definition std_col :: "real list \<Rightarrow> npfloat" where
  "std_col xs =
     (let n = length xs;
          m = sum_list xs / real n
      in if n < 2 then NonFinite
         else Finite (sqrt (sum_list (map (\<lambda>x. (x - m) ^ 2) xs) / real (n - 1))))"

definition std :: "returns \<Rightarrow> (string \<times> npfloat) list" where
  "std r = map (\<lambda>(k, xs). (k, std_col xs)) r"

text \<open>A pandas table: row labels, column labels, and the cells row by row.\<close>

record ('r, 'c) frame =
  index :: "'r list"
  columns :: "'c list"
  cells :: "real list list"

text \<open>\<^verbatim>\<open>pd.DataFrame(w, columns=assets)\<close> on a two-dimensional array: the rows are numbered
  from 0; a row whose width is not the number of column labels is a \<^verbatim>\<open>ValueError\<close>.\<close>

definition DataFrame :: "real list list \<Rightarrow> 'c list \<Rightarrow> error + (nat, 'c) frame" where
  "DataFrame w cols =
     (if \<exists>row \<in> set w. length row \<noteq> length cols then Inl ValueError
      else Inr \<lparr>index = [0..<length w], columns = cols, cells = w\<rparr>)"

text \<open>\<^verbatim>\<open>.T\<close>: the transposed table.\<close>

definition T :: "('r, 'c) frame \<Rightarrow> ('c, 'r) frame" where
  "T f = \<lparr>index = columns f, columns = index f,
          cells = map (\<lambda>j. map (\<lambda>row. row ! j) (cells f)) [0..<length (columns f)]\<rparr>"

text \<open>\<^verbatim>\<open>value * w\<close> on a table.\<close>

definition scale_frame :: "real \<Rightarrow> ('r, 'c) frame \<Rightarrow> ('r, 'c) frame" where
  "scale_frame value f = f\<lparr>cells := map (map (\<lambda>x. value * x)) (cells f)\<rparr>"

text \<open>\<^verbatim>\<open>np.ones(n)\<close> and \<^verbatim>\<open>np.identity(n)\<close>.\<close>

definition ones :: "nat \<Rightarrow> real list" where
  "ones n = replicate n 1"

definition identity :: "nat \<Rightarrow> real list list" where
  "identity n = map (\<lambda>i. map (\<lambda>j. if i = j then 1 else 0) [0..<n]) [0..<n]"

text \<open>numpy's random state: the constructor from a seed, and \<^verbatim>\<open>rs.dirichlet(alpha, size)\<close>,
  which returns the drawn rows and advances the state.\<close>

record 's numpy_random =
  RandomState :: "int \<Rightarrow> 's"
  dirichlet :: "'s \<Rightarrow> real list \<Rightarrow> nat \<Rightarrow> real list list \<times> 's"

subsection \<open>The entry points\<close>

type_synonym result = "error + (weights option \<times> returns option)"

text \<open>\<^verbatim>\<open>get_equal_weights\<close>. The dict comprehension evaluates
  \<^verbatim>\<open>value * round(1 / len(stocks), 5)\<close> once for every stock, so for the empty list nothing is
  divided and the dict is empty.\<close>

definition get_equal_weights :: "provider \<Rightarrow> string list \<Rightarrow> fetch_opts \<Rightarrow> real \<Rightarrow> result" where
  "get_equal_weights yfm stocks opts value =
     (let stock_returns = fetch_returns yfm stocks opts;
          weights =
            foldl (\<lambda>d stock.
                     AList.update stock (fmul value (py_round (fdiv 1 (real (length stocks))) 5)) d)
              [] stocks
      in Inr (Some weights, Some stock_returns))"

text \<open>The loop of \<^verbatim>\<open>get_property_weights\<close> over the stocks. \<open>info stock\<close> is the dict
  \<^verbatim>\<open>yf.Ticker(stock).info\<close>, restricted to numeric attributes; an attribute may be
  \<^verbatim>\<open>None\<close>. The attributes are summed with \<^verbatim>\<open>prop_sum += stock_prop\<close>, one float addition
  each. (An attribute that is a Python int is represented by its value: on ints below
  \<open>2 ^ 53\<close> in magnitude, with sums below \<open>2 ^ 53\<close>, the float addition is as exact as
  Python's addition of ints.)\<close>

fun property_loop ::
  "(string \<Rightarrow> string \<rightharpoonup> real option) \<Rightarrow> string \<Rightarrow> string list \<Rightarrow> (string \<times> real) list \<Rightarrow> real
     \<Rightarrow> error + ((string \<times> real) list \<times> real)" where
  "property_loop info s_property [] prop prop_sum = Inr (prop, prop_sum)"
| "property_loop info s_property (stock # rest) prop prop_sum =
     (case getitem (info stock) s_property of
        Inl e \<Rightarrow> Inl e
      | Inr stock_prop \<Rightarrow>
          let stock_prop = (case stock_prop of None \<Rightarrow> 0 | Some v \<Rightarrow> v)
          in property_loop info s_property rest
               (AList.update stock stock_prop prop) (fadd prop_sum stock_prop))"

definition get_property_weights ::
  "provider \<Rightarrow> (string \<Rightarrow> string \<rightharpoonup> real option) \<Rightarrow> string list \<Rightarrow> fetch_opts \<Rightarrow> string \<Rightarrow> real
     \<Rightarrow> result" where
  "get_property_weights yfm info stocks opts s_property value =
     (let stock_returns = fetch_returns yfm stocks opts
      in case property_loop info s_property stocks [] 0 of
           Inl e \<Rightarrow> Inl e
         | Inr (prop, prop_sum) \<Rightarrow>
             if prop_sum = 0 then Inr (None, None)
             else
               let weights = map (\<lambda>(k, v). (k, fdiv (fmul value v) prop_sum)) prop
               in Inr (Some weights, Some stock_returns))"

text \<open>The closing block of the mean-risk family:
  \<^verbatim>\<open>if weights is not None: weights = weights.round(5); weights = weights.squeeze().to_dict()\<close>
  and \<^verbatim>\<open>return weights, stock_returns\<close>.\<close>

definition round_and_return :: "weights option \<Rightarrow> returns \<Rightarrow> result" where
  "round_and_return weights stock_returns =
     (case weights of
        None \<Rightarrow> Inr (None, Some stock_returns)
      | Some w \<Rightarrow>
          (case squeeze_to_dict (round_weights w) of
             Inl e \<Rightarrow> Inl e
           | Inr d \<Rightarrow> Inr (Some d, Some stock_returns)))"

text \<open>The closing block of the risk-parity and hierarchical entry points, which first has
  \<^verbatim>\<open>if value > 0.0: weights = value * weights\<close>.\<close>

definition scale_round_and_return :: "real \<Rightarrow> weights option \<Rightarrow> returns \<Rightarrow> result" where
  "scale_round_and_return value weights stock_returns =
     (case weights of
        None \<Rightarrow> Inr (None, Some stock_returns)
      | Some w \<Rightarrow>
          (let w = (if value > 0 then scale_weights value w else w)
           in case squeeze_to_dict (round_weights w) of
                Inl e \<Rightarrow> Inl e
              | Inr d \<Rightarrow> Inr (Some d, Some stock_returns)))"

text \<open>\<^verbatim>\<open>get_mean_risk_portfolio\<close>, from \<^verbatim>\<open>port = Portfolio.Portfolio(...)\<close> to the last
  \<^verbatim>\<open>setattr\<close>: the portfolio object that is handed to the engine. In a \<^verbatim>\<open>setattr\<close> call
  the name \<^verbatim>\<open>upper_risk[risk_measure]\<close> is evaluated before the value.\<close>

definition mean_risk_port ::
  "riskfolio \<Rightarrow> returns \<Rightarrow> fetch_opts \<Rightarrow> string \<Rightarrow> real \<Rightarrow> real \<Rightarrow> real \<Rightarrow> string \<Rightarrow> string
     \<Rightarrow> real \<Rightarrow> real \<Rightarrow> real \<Rightarrow> error + port" where
  "mean_risk_port rk stock_returns opts risk_measure alpha target_return target_risk mean
       covariance d_ewma value value_short =
     (let p = Portfolio rk stock_returns (Some alpha);
          p = assets_stats rk p mean covariance d_ewma;
          p = budget_constraints p value value_short
      in case (if target_return > - 1
               then (case getitem time_factor (upper (freq opts)) of
                       Inl e \<Rightarrow> Inl e
                     | Inr tf \<Rightarrow> Inr (p\<lparr>lowerret := Some (fdiv target_return tf)\<rparr>))
               else Inr p) of
           Inl e \<Rightarrow> Inl e
         | Inr p \<Rightarrow>
             if target_risk > - 1 then
               if risk_measure \<notin> set [''ADD'', ''MDD'', ''CDaR'', ''EDaR'', ''UCI''] then
                 (case getitem upper_risk risk_measure of
                    Inl e \<Rightarrow> Inl e
                  | Inr name \<Rightarrow>
                      (case getitem time_factor (upper (freq opts)) of
                         Inl e \<Rightarrow> Inl e
                       | Inr tf \<Rightarrow> Inr (setattr p name (fdiv target_risk (fpow tf (1 / 2))))))
               else
                 (case getitem upper_risk risk_measure of
                    Inl e \<Rightarrow> Inl e
                  | Inr name \<Rightarrow> Inr (setattr p name target_risk))
             else Inr p)"

definition get_mean_risk_portfolio ::
  "provider \<Rightarrow> riskfolio \<Rightarrow> string list \<Rightarrow> fetch_opts \<Rightarrow> string \<Rightarrow> string \<Rightarrow> real \<Rightarrow> real \<Rightarrow> real
     \<Rightarrow> real \<Rightarrow> real \<Rightarrow> string \<Rightarrow> string \<Rightarrow> real \<Rightarrow> real \<Rightarrow> real \<Rightarrow> result" where
  "get_mean_risk_portfolio yfm rk stocks opts risk_measure objective risk_free_rate risk_aversion
       alpha target_return target_risk mean covariance d_ewma value value_short =
     (let stock_returns = fetch_returns yfm stocks opts
      in case getitem time_factor (upper (freq opts)) of
           Inl e \<Rightarrow> Inl e
         | Inr tf \<Rightarrow>
             let risk_free_rate = fdiv risk_free_rate tf
             in case mean_risk_port rk stock_returns opts risk_measure alpha target_return
                       target_risk mean covariance d_ewma value value_short of
                  Inl e \<Rightarrow> Inl e
                | Inr p \<Rightarrow>
                    round_and_return
                      (optimization rk p ''Classic'' risk_measure objective risk_free_rate
                         (Some risk_aversion) True)
                      stock_returns)"

text \<open>\<^verbatim>\<open>get_max_diversification_portfolio\<close>, from the constructor to the budget block.\<close>

definition max_diversification_port ::
  "riskfolio \<Rightarrow> returns \<Rightarrow> string \<Rightarrow> real \<Rightarrow> real \<Rightarrow> real \<Rightarrow> port" where
  "max_diversification_port rk stock_returns covariance d_ewma value value_short =
     (let p = Portfolio rk stock_returns None;
          p = assets_stats rk p ''hist'' covariance d_ewma;
          p = p\<lparr>mu := std stock_returns\<rparr>
      in budget_constraints p value value_short)"

definition get_max_diversification_portfolio ::
  "provider \<Rightarrow> riskfolio \<Rightarrow> string list \<Rightarrow> fetch_opts \<Rightarrow> string \<Rightarrow> real \<Rightarrow> real \<Rightarrow> real \<Rightarrow> result" where
  "get_max_diversification_portfolio yfm rk stocks opts covariance d_ewma value value_short =
     (let stock_returns = fetch_returns yfm stocks opts;
          p = max_diversification_port rk stock_returns covariance d_ewma value value_short
      in round_and_return (optimization rk p ''Classic'' ''MV'' ''Sharpe'' 0 None True)
           stock_returns)"

text \<open>\<^verbatim>\<open>get_max_decorrelation_portfolio\<close>, from the constructor to the budget block.\<close>

definition max_decorrelation_port ::
  "riskfolio \<Rightarrow> returns \<Rightarrow> string \<Rightarrow> real \<Rightarrow> real \<Rightarrow> real \<Rightarrow> port" where
  "max_decorrelation_port rk stock_returns covariance d_ewma value value_short =
     (let p = Portfolio rk stock_returns None;
          p = assets_stats rk p ''hist'' covariance d_ewma;
          p = p\<lparr>cov := cov2corr rk (cov p)\<rparr>
      in budget_constraints p value value_short)"

definition get_max_decorrelation_portfolio ::
  "provider \<Rightarrow> riskfolio \<Rightarrow> string list \<Rightarrow> fetch_opts \<Rightarrow> string \<Rightarrow> real \<Rightarrow> real \<Rightarrow> real \<Rightarrow> result" where
  "get_max_decorrelation_portfolio yfm rk stocks opts covariance d_ewma value value_short =
     (let stock_returns = fetch_returns yfm stocks opts;
          p = max_decorrelation_port rk stock_returns covariance d_ewma value value_short
      in round_and_return (optimization rk p ''Classic'' ''MV'' ''MinRisk'' 0 None True)
           stock_returns)"

text \<open>The two risk-parity entry points, from the constructor to the assignment of
  \<^verbatim>\<open>port.lowerret\<close>. They differ in the constructor call: the relaxed one passes no
  \<^verbatim>\<open>alpha\<close>.\<close>

definition risk_parity_port ::
  "riskfolio \<Rightarrow> returns \<Rightarrow> fetch_opts \<Rightarrow> real option \<Rightarrow> real \<Rightarrow> string \<Rightarrow> string \<Rightarrow> real
     \<Rightarrow> error + port" where
  "risk_parity_port rk stock_returns opts alpha target_return mean covariance d_ewma =
     (let p = Portfolio rk stock_returns alpha;
          p = assets_stats rk p mean covariance d_ewma
      in if target_return > - 1
         then (case getitem time_factor (upper (freq opts)) of
                 Inl e \<Rightarrow> Inl e
               | Inr tf \<Rightarrow> Inr (p\<lparr>lowerret := Some (fdiv target_return tf)\<rparr>))
         else Inr p)"

definition get_risk_parity_portfolio ::
  "provider \<Rightarrow> riskfolio \<Rightarrow> string list \<Rightarrow> fetch_opts \<Rightarrow> string \<Rightarrow> real list option \<Rightarrow> real \<Rightarrow> real
     \<Rightarrow> real \<Rightarrow> string \<Rightarrow> string \<Rightarrow> real \<Rightarrow> real \<Rightarrow> result" where
  "get_risk_parity_portfolio yfm rk stocks opts risk_measure risk_cont risk_free_rate alpha
       target_return mean covariance d_ewma value =
     (let stock_returns = fetch_returns yfm stocks opts
      in case getitem time_factor (upper (freq opts)) of
           Inl e \<Rightarrow> Inl e
         | Inr tf \<Rightarrow>
             let risk_free_rate = fdiv risk_free_rate tf;
                 risk_cont' = normalize_risk_cont risk_cont
             in case risk_parity_port rk stock_returns opts (Some alpha) target_return mean
                       covariance d_ewma of
                  Inl e \<Rightarrow> Inl e
                | Inr p \<Rightarrow>
                    scale_round_and_return value
                      (rp_optimization rk p ''Classic'' risk_measure risk_free_rate risk_cont' True)
                      stock_returns)"

definition get_rel_risk_parity_portfolio ::
  "provider \<Rightarrow> riskfolio \<Rightarrow> string list \<Rightarrow> fetch_opts \<Rightarrow> string \<Rightarrow> real list option \<Rightarrow> real \<Rightarrow> real
     \<Rightarrow> string \<Rightarrow> string \<Rightarrow> real \<Rightarrow> real \<Rightarrow> result" where
  "get_rel_risk_parity_portfolio yfm rk stocks opts version risk_cont penal_factor target_return
       mean covariance d_ewma value =
     (let stock_returns = fetch_returns yfm stocks opts;
          risk_cont' = normalize_risk_cont risk_cont
      in case risk_parity_port rk stock_returns opts None target_return mean covariance d_ewma of
           Inl e \<Rightarrow> Inl e
         | Inr p \<Rightarrow>
             scale_round_and_return value
               (rrp_optimization rk p ''Classic'' version penal_factor risk_cont' True)
               stock_returns)"

definition get_hcp_portfolio ::
  "provider \<Rightarrow> riskfolio \<Rightarrow> string list \<Rightarrow> fetch_opts \<Rightarrow> string \<Rightarrow> string \<Rightarrow> string \<Rightarrow> string
     \<Rightarrow> string \<Rightarrow> real \<Rightarrow> real \<Rightarrow> real \<Rightarrow> int \<Rightarrow> real option \<Rightarrow> int option \<Rightarrow> string \<Rightarrow> int \<Rightarrow> int
     \<Rightarrow> string \<Rightarrow> real \<Rightarrow> bool \<Rightarrow> real \<Rightarrow> real \<Rightarrow> result" where
  "get_hcp_portfolio yfm rk stocks opts model codependence covariance objective risk_measure
       risk_free_rate risk_aversion alpha a_sim beta b_sim linkage k max_k bins_info alpha_tail
       leaf_order d_ewma value =
     (let stock_returns = fetch_returns yfm stocks opts;
          linkage = (if linkage = ''dbht'' then upper linkage else linkage)
      in case getitem time_factor (upper (freq opts)) of
           Inl e \<Rightarrow> Inl e
         | Inr tf \<Rightarrow>
             let risk_free_rate = fdiv risk_free_rate tf;
                 p = HCPortfolio stock_returns alpha a_sim beta b_sim
             in scale_round_and_return value
                  (hc_optimization rk p model codependence covariance objective risk_measure
                     risk_free_rate risk_aversion linkage k max_k bins_info alpha_tail leaf_order
                     d_ewma)
                  stock_returns)"

text \<open>\<^verbatim>\<open>generate_random_portfolios\<close>, from \<^verbatim>\<open>rs = np.random.RandomState(seed=seed)\<close> to
  \<^verbatim>\<open>w = np.concatenate((w1, w2, w3, w4), axis=0)\<close>: the three batches drawn in turn from the
  one random state, and the identity, stacked row-wise. The concentration vectors are
  numpy's products \<^verbatim>\<open>np.ones(n) * 0.65\<close> and \<^verbatim>\<open>np.ones(n) * 2\<close>, with the literal 0.65
  written as the decimal.\<close>

definition stacked_samples :: "'s numpy_random \<Rightarrow> string list \<Rightarrow> nat \<Rightarrow> int \<Rightarrow> real list list" where
  "stacked_samples np assets n_samples seed =
     (let rs = RandomState np seed;
          (w1, rs) = dirichlet np rs (ones (length assets)) n_samples;
          (w2, rs) = dirichlet np rs (map (\<lambda>x. x * 0.65) (ones (length assets))) n_samples;
          (w3, rs) = dirichlet np rs (map (\<lambda>x. x * 2) (ones (length assets))) n_samples;
          w4 = identity (length assets)
      in w1 @ w2 @ w3 @ w4)"

text \<open>\<^verbatim>\<open>generate_random_portfolios\<close>. A negative \<^verbatim>\<open>size\<close> makes \<^verbatim>\<open>rs.dirichlet\<close> raise
  \<^verbatim>\<open>ValueError\<close>. The table is transposed, so its rows are the assets and its columns the
  portfolios. The quotient in \<^verbatim>\<open>int(n_portfolios / 3)\<close> is written exactly: its float has the
  same integer part for every \<open>n_portfolios\<close> below \<open>3 * 2 ^ 52\<close> (lemma
  \<open>n_samples_binary64\<close> below), and a table of that many columns does not fit in memory.\<close>

definition generate_random_portfolios ::
  "'s numpy_random \<Rightarrow> string list \<Rightarrow> int \<Rightarrow> int \<Rightarrow> real \<Rightarrow> error + (string, nat) frame" where
  "generate_random_portfolios np stocks n_portfolios seed value =
     (let assets = stocks;
          n_samples = py_int (real_of_int n_portfolios / 3)
      in if n_samples < 0 then Inl ValueError
         else
           let w = stacked_samples np assets (nat n_samples) seed
           in case DataFrame w assets of
                Inl e \<Rightarrow> Inl e
              | Inr df \<Rightarrow>
                  let w = T df
                  in Inr (if value > 0 then scale_frame value w else w))"

subsection \<open>Sample collaborators\<close>

text \<open>A provider, a fresh portfolio object and an engine with a fixed answer, on which the
  theorems below are instantiated.\<close>

definition demo_opts :: fetch_opts where
  "demo_opts = \<lparr>period = ''3y'', start = [], end = [], log_returns = False, freq = ''d'',
                 maxnan = 0.05, threshold = 0, method = ''time''\<rparr>"

definition demo_returns :: returns where
  "demo_returns = [(''A'', [0.02, - 0.02, 0.04]), (''B'', [0.01, - 0.01, 0.02])]"

definition demo_provider :: provider where
  "demo_provider =
     \<lparr>process_stocks = (\<lambda>stocks p s e. map (\<lambda>k. (k, [1, 1, 1, 1])) stocks),
      process_returns = (\<lambda>stock_prices lg f mx th me. demo_returns)\<rparr>"

definition demo_port :: "returns \<Rightarrow> real option \<Rightarrow> port" where
  "demo_port r a =
     \<lparr>port_returns = r, port_alpha = a, mu = [], cov = [], sht = False, upperlng = 1,
      uppersht = 0.2, budget = 1, lowerret = None, attrs = Map.empty\<rparr>"

definition demo_engine :: "weights option \<Rightarrow> riskfolio" where
  "demo_engine answer =
     \<lparr>Portfolio = demo_port,
      assets_stats = (\<lambda>p method_mu method_cov d. p),
      optimization = (\<lambda>p model rm obj rf l hist. answer),
      rp_optimization = (\<lambda>p model rm rf b hist. answer),
      rrp_optimization = (\<lambda>p model version l b hist. answer),
      cov2corr = (\<lambda>c. c),
      hc_optimization =
        (\<lambda>p model codependence covariance obj rm rf l linkage k max_k bins_info alpha_tail
            leaf_order d. answer)\<rparr>"


text \<open>The output contract of an entry point: it returns a pair whose second component is
  the return matrix.\<close>

definition returns_contract :: "result \<Rightarrow> returns \<Rightarrow> bool" where
  "returns_contract res stock_returns =
     (case res of Inl e \<Rightarrow> False | Inr (w, r) \<Rightarrow> r = Some stock_returns)"


text \<open>Two attribute sources (one without any value, one with market capitalisations) and an
  answer of the engine.\<close>

definition demo_info_none :: "string \<Rightarrow> string \<rightharpoonup> real option" where
  "demo_info_none ticker = [''marketCap'' \<mapsto> None]"

definition demo_info :: "string \<Rightarrow> string \<rightharpoonup> real option" where
  "demo_info ticker = [''marketCap'' \<mapsto> (if ticker = ''A'' then Some 3 else Some 1)]"

definition demo_answer :: "weights option" where
  "demo_answer = Some [(''A'', 3 / 5), (''B'', 2 / 5)]"

text \<open>An engine that answers only when \<open>optimization\<close> is called with the model Classic, the
  measure MV, the objective Sharpe, the rate 0, no risk aversion, and a portfolio object whose
  mean vector is the standard deviation of its returns.\<close>

definition demo_probe_engine :: riskfolio where
  "demo_probe_engine =
     (demo_engine None)
       \<lparr>optimization :=
          (\<lambda>p model rm obj rf l hist.
             if model = ''Classic'' \<and> rm = ''MV'' \<and> obj = ''Sharpe'' \<and> rf = 0 \<and> l = None \<and> hist
                \<and> mu p = std (port_returns p)
             then demo_answer else None)\<rparr>"

text \<open>An engine that answers only when the portfolio object it is given has the long bound,
  the short flag, the short bound (looked at when shorting is allowed) and the budget that
  are expected.\<close>

definition demo_budget_engine :: "real \<Rightarrow> bool \<Rightarrow> real \<Rightarrow> real \<Rightarrow> riskfolio" where
  "demo_budget_engine lng short sh bud =
     (demo_engine None)
       \<lparr>optimization :=
          (\<lambda>p model rm obj rf l hist.
             if upperlng p = lng \<and> sht p = short \<and> (short \<longrightarrow> uppersht p = sh) \<and> budget p = bud
             then demo_answer else None)\<rparr>"


text \<open>An attribute source with the three floats that Python writes 0.1, 0.2 and -0.3.\<close>

definition demo_info_beta :: "string \<Rightarrow> string \<rightharpoonup> real option" where
  "demo_info_beta ticker =
     [''beta'' \<mapsto>
        (if ticker = ''A'' then Some (3602879701896397 / 2 ^ 55)
         else if ticker = ''B'' then Some (3602879701896397 / 2 ^ 54)
         else Some (- 5404319552844595 / 2 ^ 54))]"




text \<open>A random state that counts its draws and a sampler that always draws the uniform
  vector.\<close>

definition demo_numpy :: "nat numpy_random" where
  "demo_numpy =
     \<lparr>RandomState = (\<lambda>seed. nat seed),
      dirichlet = (\<lambda>s a n. (replicate n (map (\<lambda>x. 1 / real (length a)) a), s + n))\<rparr>"

section \<open>Properties\<close>

subsection \<open>Auxiliary facts\<close>

lemma time_factor_cases:
  "time_factor k = Some tf \<Longrightarrow>
     k = ''D'' \<and> tf = 252 \<or> k = ''W'' \<and> tf = 52 \<or> k = ''M'' \<and> tf = 12"
  unfolding time_factor_def by (simp split: if_splits)

lemma time_factor_pos: "time_factor k = Some tf \<Longrightarrow> 0 < tf"
  using time_factor_cases by fastforce


lemma budget_constraints_simps:
  "upperlng (budget_constraints p value value_short) = value"
  "0 < value_short \<Longrightarrow> sht (budget_constraints p value value_short)"
  "0 < value_short \<Longrightarrow> uppersht (budget_constraints p value value_short) = value_short"
  "0 < value_short \<Longrightarrow>
     budget (budget_constraints p value value_short) = fsub value value_short"
  "\<not> 0 < value_short \<Longrightarrow> budget (budget_constraints p value value_short) = value"
  "\<not> 0 < value_short \<Longrightarrow> sht (budget_constraints p value value_short) = sht p"
  "\<not> 0 < value_short \<Longrightarrow> uppersht (budget_constraints p value value_short) = uppersht p"
  "attrs (budget_constraints p value value_short) = attrs p"
  "lowerret (budget_constraints p value value_short) = lowerret p"
  "mu (budget_constraints p value value_short) = mu p"
  "cov (budget_constraints p value value_short) = cov p"
  "port_returns (budget_constraints p value value_short) = port_returns p"
  by (simp_all add: budget_constraints_def Let_def)

lemma upper_demo: "upper ''d'' = ''D''" "upper ''w'' = ''W''" "upper ''m'' = ''M''"
  "upper ''D'' = ''D''" "upper ''W'' = ''W''" "upper ''M'' = ''M''"
  by (simp_all add: upper_def upper_char_def)

lemma demo_engine_simps:
  "Portfolio (demo_engine a) = demo_port"
  "assets_stats (demo_engine a) p mm mc d = p"
  "optimization (demo_engine a) p m1 r1 o1 f1 l1 h1 = a"
  "rp_optimization (demo_engine a) p m2 r2 f2 b2 h2 = a"
  "rrp_optimization (demo_engine a) p m3 v3 l3 b3 h3 = a"
  "cov2corr (demo_engine a) c = c"
  "hc_optimization (demo_engine a) hp m4 cd cv ob rm rf l lk k mk bi atl lo dd = a"
  by (simp_all add: demo_engine_def)

lemma demo_fetch: "fetch_returns demo_provider stocks opts = demo_returns"
  by (simp add: fetch_returns_def demo_provider_def)

lemma demo_freq: "time_factor (upper (freq demo_opts)) = Some 252"
  by (simp add: demo_opts_def upper_demo time_factor_def)

subsection \<open>Rounding to binary64\<close>

lemma round_half_even_error: "\<bar>of_int (round_half_even y) - y\<bar> \<le> 1 / 2"
  unfolding round_half_even_def Let_def by (auto split: if_splits)

lemma round_half_even_of_int: "round_half_even (of_int m) = m"
  by (simp add: round_half_even_def)

lemma round_half_even_eqI:
  assumes "of_int m - 1 / 2 < y" and "y < of_int m + 1 / 2"
  shows "round_half_even y = m"
proof -
  have "\<bar>of_int (round_half_even y) - y\<bar> \<le> 1 / 2" by (rule round_half_even_error)
  with assms have "\<bar>(of_int (round_half_even y) :: real) - of_int m\<bar> < 1" by linarith
  then have "\<bar>round_half_even y - m\<bar> < 1"
    by (metis of_int_abs of_int_diff of_int_less_1_iff)
  then show ?thesis by simp
qed

lemma floor_log2_eqI:
  assumes "2 powi e \<le> x" and "x < 2 powi (e + 1)"
  shows "\<lfloor>log 2 x\<rfloor> = e"
proof -
  have pos: "0 < x" using assms(1) zero_less_power_int [of "2 :: real" e] by linarith
  have "(2 :: real) powr real_of_int e = 2 powi e"
    by (rule powr_real_of_int') simp_all
  moreover have "(2 :: real) powr (real_of_int e + 1) = 2 powi (e + 1)"
    using powr_real_of_int' [of "2 :: real" "e + 1"] by simp
  ultimately show ?thesis
    using assms pos floor_log_eq_powr_iff [of x 2 e] by simp
qed

lemma fl_eqI:
  assumes "2 powi e \<le> \<bar>x\<bar>" and "\<bar>x\<bar> < 2 powi (e + 1)" and "emin \<le> e"
    and "round_half_even (x / 2 powi (e - 52)) = m"
  shows "fl x = of_int m * 2 powi (e - 52)"
proof -
  have "0 < \<bar>x\<bar>" using assms(1) zero_less_power_int [of "2 :: real" e] by linarith
  then have nz: "x \<noteq> 0" by simp
  have "\<lfloor>log 2 \<bar>x\<bar>\<rfloor> = e" using assms(1,2) by (rule floor_log2_eqI)
  then show ?thesis using nz assms(3,4) by (simp add: fl_def Let_def max_def)
qed



lemma fl_error_ulp:
  assumes "2 powi e \<le> \<bar>x\<bar>" and "\<bar>x\<bar> < 2 powi (e + 1)" and "emin \<le> e"
  shows "\<bar>fl x - x\<bar> \<le> 2 powi (e - 53)"
proof -
  define q where "q = e - 52"
  have fl: "fl x = of_int (round_half_even (x / 2 powi q)) * 2 powi q"
    unfolding q_def by (rule fl_eqI [OF assms]) simp
  have qpos: "(0 :: real) < 2 powi q" by simp
  have "fl x - x = (of_int (round_half_even (x / 2 powi q)) - x / 2 powi q) * 2 powi q"
    using qpos by (simp add: fl field_simps)
  then have "\<bar>fl x - x\<bar> = \<bar>of_int (round_half_even (x / 2 powi q)) - x / 2 powi q\<bar> * 2 powi q"
    using qpos by (simp add: abs_mult)
  also have "\<dots> \<le> 1 / 2 * 2 powi q"
    using round_half_even_error [of "x / 2 powi q"] qpos by (intro mult_right_mono) simp_all
  also have "1 / 2 * 2 powi q = (2 :: real) powi (e - 53)"
    unfolding q_def by (simp add: power_int_diff)
  finally show ?thesis .
qed

lemma fl_representable:
  assumes "\<bar>m\<bar> < 2 ^ 53" and "emin - 52 \<le> q"
  shows "fl (of_int m * 2 powi q) = of_int m * 2 powi q"
proof (cases "m = 0")
  case True
  then show ?thesis by (simp add: fl_def)
next
  case False
  define x :: real where "x = of_int m * 2 powi q"
  have nz: "x \<noteq> 0" using False by (simp add: x_def)
  then have pos: "0 < \<bar>x\<bar>" by simp
  define e where "e = \<lfloor>log 2 \<bar>x\<bar>\<rfloor>"
  define r where "r = max e emin - 52"
  have p: "(2 :: real) powr real_of_int k = 2 powi k" for k
    by (rule powr_real_of_int') simp_all
  have "2 powr real_of_int e \<le> \<bar>x\<bar>"
    using pos unfolding e_def by (simp add: le_log_iff [symmetric])
  then have lo: "2 powi e \<le> \<bar>x\<bar>" by (simp add: p)
  have "\<bar>x\<bar> = of_int \<bar>m\<bar> * 2 powi q" by (simp add: x_def abs_mult)
  also have "\<dots> < 2 ^ 53 * 2 powi q"
    using assms(1) by (intro mult_strict_right_mono) (simp_all add: of_int_less_numeral_power_cancel_iff)
  also have "\<dots> = 2 powi (53 + q)"
    by (simp add: power_int_add)
  finally have "(2 :: real) powi e < 2 powi (53 + q)" using lo by linarith
  then have "e < 53 + q"
    by (metis not_less one_le_numeral power_int_increasing)
  then have rq: "r \<le> q" using assms(2) by (simp add: r_def)
  define k where "k = nat (q - r)"
  have kq: "q = r + int k" using rq by (simp add: k_def)
  have "x / 2 powi r = of_int m * 2 ^ k"
    by (simp add: x_def kq power_int_add)
  also have "\<dots> = of_int (m * 2 ^ k)" by simp
  finally have "round_half_even (x / 2 powi r) = m * 2 ^ k"
    by (simp only: round_half_even_of_int)
  then have "fl x = of_int (m * 2 ^ k) * 2 powi r"
    using nz by (simp add: fl_def Let_def e_def r_def)
  also have "\<dots> = x" by (simp add: x_def kq power_int_add)
  finally show ?thesis by (simp add: x_def)
qed

lemma less_sqrt_times:
  assumes "0 \<le> a" and "0 < c" and "a\<^sup>2 < x * c\<^sup>2"
  shows "a < sqrt x * c"
proof -
  have "a = sqrt (a\<^sup>2)" using assms(1) by simp
  also have "\<dots> < sqrt (x * c\<^sup>2)" using assms(3) by (simp only: real_sqrt_less_iff)
  also have "\<dots> = sqrt x * c" using assms(2) by (simp add: real_sqrt_mult)
  finally show ?thesis .
qed

lemma sqrt_times_less:
  assumes "0 \<le> b" and "0 < c" and "x * c\<^sup>2 < b\<^sup>2"
  shows "sqrt x * c < b"
proof -
  have "sqrt x * c = sqrt (x * c\<^sup>2)" using assms(2) by (simp add: real_sqrt_mult)
  also have "\<dots> < sqrt (b\<^sup>2)" using assms(3) by (simp only: real_sqrt_less_iff)
  also have "\<dots> = b" using assms(1) by simp
  finally show ?thesis .
qed

lemma sqrt_252_round: "round_half_even (sqrt 252 / 2 powi (3 - 52)) = 8936553463969119"
proof (rule round_half_even_eqI)
  have "(8936553463969119 - 1 / 2 :: real) < sqrt 252 * 2 ^ 49"
    by (rule less_sqrt_times) (simp_all add: power_divide)
  then show "real_of_int 8936553463969119 - 1 / 2 < sqrt 252 / 2 powi (3 - 52)"
    by simp
  have "sqrt 252 * 2 ^ 49 < (8936553463969119 + 1 / 2 :: real)"
    by (rule sqrt_times_less) (simp_all add: power_divide)
  then show "sqrt 252 / 2 powi (3 - 52) < real_of_int 8936553463969119 + 1 / 2"
    by simp
qed

lemma fl_sqrt_252: "fl (sqrt 252) = 8936553463969119 / 2 ^ 49"
proof -
  have a: "2 powi 3 \<le> \<bar>sqrt 252\<bar>"
    using real_sqrt_le_iff [of 64 252] by simp
  have b: "\<bar>sqrt 252\<bar> < 2 powi (3 + 1)"
    using real_sqrt_less_iff [of 252 256] by simp
  show ?thesis
    using fl_eqI [OF a b _ sqrt_252_round] by (simp add: emin_def)
qed

lemma fpow_half: "0 \<le> x \<Longrightarrow> fpow x (1 / 2) = fl (sqrt x)"
  by (simp add: fpow_def powr_half_sqrt)

lemma quarter_by_sqrt_252:
  "fdiv (1 / 4) (fl (sqrt 252)) = 4539201759476377 / 2 ^ 58"
proof -
  have "fl ((1 / 4) / (8936553463969119 / 2 ^ 49)) = of_int 4539201759476377 * 2 powi (- 6 - 52)"
    by (rule fl_eqI) (simp_all add: emin_def round_half_even_def Let_def)
  then show ?thesis by (simp add: fdiv_def fl_sqrt_252)
qed

subsection \<open>Target risk\<close>

text \<open>
  C1. In a call of \<^verbatim>\<open>get_mean_risk_portfolio\<close> with \<open>target_risk > -1\<close>, a registered risk
  measure and a frequency code of the table, the portfolio object handed to the engine has,
  in the upper-bound attribute that \<open>upper_risk\<close> names for the measure, the target risk
  itself when the measure is one of ADD, MDD, CDaR, EDaR, UCI, and otherwise the target risk
  divided by the square root of the frequency factor (252 for D, 52 for W, 12 for M), the
  root and the quotient being those of binary64.
\<close>

theorem target_risk_upper_bound:
  assumes "target_risk > - 1"
    and "upper_risk risk_measure = Some name"
    and "time_factor (upper (freq opts)) = Some tf"
  shows "\<exists>p. mean_risk_port rk (fetch_returns yfm stocks opts) opts risk_measure alpha
               target_return target_risk mean covariance d_ewma value value_short = Inr p
           \<and> get_mean_risk_portfolio yfm rk stocks opts risk_measure objective risk_free_rate
               risk_aversion alpha target_return target_risk mean covariance d_ewma value
               value_short =
               round_and_return
                 (optimization rk p ''Classic'' risk_measure objective (fdiv risk_free_rate tf)
                    (Some risk_aversion) True)
                 (fetch_returns yfm stocks opts)
           \<and> attrs p name =
               Some (if risk_measure \<in> {''ADD'', ''MDD'', ''CDaR'', ''EDaR'', ''UCI''}
                     then target_risk else fdiv target_risk (fl (sqrt tf)))
           \<and> (upper (freq opts) = ''D'' \<and> tf = 252 \<or> upper (freq opts) = ''W'' \<and> tf = 52
                \<or> upper (freq opts) = ''M'' \<and> tf = 12)"
proof -
  have tf: "0 \<le> tf" using time_factor_pos [OF assms(3)] by simp
  from assms show ?thesis
    using time_factor_cases [OF assms(3)]
    by (auto simp add: get_mean_risk_portfolio_def mean_risk_port_def getitem_def setattr_def
          Let_def fpow_half [OF tf])
qed

theorem target_risk_upper_bound_witness:
  "(\<exists>p. mean_risk_port (demo_engine None) (fetch_returns demo_provider [''A'', ''B''] demo_opts)
          demo_opts ''MDD'' 0.05 (- 1) (1 / 4) ''hist'' ''hist'' 0.94 1 0 = Inr p
        \<and> attrs p ''uppermdd'' = Some (1 / 4))
   \<and> (\<exists>p. mean_risk_port (demo_engine None) (fetch_returns demo_provider [''A'', ''B''] demo_opts)
          demo_opts ''MV'' 0.05 (- 1) (1 / 4) ''hist'' ''hist'' 0.94 1 0 = Inr p
        \<and> attrs p ''upperdev'' = Some (fdiv (1 / 4) (fl (sqrt 252)))
        \<and> attrs p ''upperdev'' = Some (4539201759476377 / 2 ^ 58))"
proof -
  have r: "(1 / 4 :: real) > - 1" by simp
  have n1: "upper_risk ''MDD'' = Some ''uppermdd''" by (simp add: upper_risk_def)
  have n2: "upper_risk ''MV'' = Some ''upperdev''" by (simp add: upper_risk_def)
  show ?thesis
    using target_risk_upper_bound [OF r n1 demo_freq, of "demo_engine None" demo_provider
        "[''A'', ''B'']" "0.05" "- 1" "''hist''" "''hist''" "0.94" 1 0 "''Sharpe''" 0 2]
      target_risk_upper_bound [OF r n2 demo_freq, of "demo_engine None" demo_provider
        "[''A'', ''B'']" "0.05" "- 1" "''hist''" "''hist''" "0.94" 1 0 "''Sharpe''" 0 2]
    by (simp add: quarter_by_sqrt_252, blast)
qed

subsection \<open>Budget constraints\<close>

lemma mean_risk_port_budget:
  assumes "mean_risk_port rk stock_returns opts risk_measure alpha target_return target_risk mean
             covariance d_ewma value value_short = Inr p"
  defines "q \<equiv> budget_constraints
                 (assets_stats rk (Portfolio rk stock_returns (Some alpha)) mean covariance d_ewma)
                 value value_short"
  shows "upperlng p = upperlng q" "sht p = sht q" "uppersht p = uppersht q" "budget p = budget q"
  using assms(1) unfolding q_def
  by (auto simp add: mean_risk_port_def getitem_def setattr_def Let_def
        split: option.splits if_splits)

lemma mean_risk_port_returns:
  assumes "time_factor (upper (freq opts)) = Some tf"
    and "target_risk > - 1 \<longrightarrow> upper_risk risk_measure \<noteq> None"
  shows "\<exists>p. mean_risk_port rk stock_returns opts risk_measure alpha target_return target_risk
               mean covariance d_ewma value value_short = Inr p"
  using assms by (auto simp add: mean_risk_port_def getitem_def Let_def)

lemma get_mean_risk_portfolio_call:
  assumes "time_factor (upper (freq opts)) = Some tf"
    and "mean_risk_port rk (fetch_returns yfm stocks opts) opts risk_measure alpha target_return
           target_risk mean covariance d_ewma value value_short = Inr p"
  shows "get_mean_risk_portfolio yfm rk stocks opts risk_measure objective risk_free_rate
           risk_aversion alpha target_return target_risk mean covariance d_ewma value
           value_short =
         round_and_return
           (optimization rk p ''Classic'' risk_measure objective (fdiv risk_free_rate tf)
              (Some risk_aversion) True)
           (fetch_returns yfm stocks opts)"
  using assms by (simp add: get_mean_risk_portfolio_def getitem_def Let_def)

text \<open>
  C2. Each of \<^verbatim>\<open>get_mean_risk_portfolio\<close> (when no lookup raises),
  \<^verbatim>\<open>get_max_diversification_portfolio\<close> and \<^verbatim>\<open>get_max_decorrelation_portfolio\<close> returns
  what the closing block makes of the engine's answer for a portfolio object that has
  \<open>upperlng = value\<close>; when \<open>value_short > 0\<close> the object has \<open>sht = True\<close>,
  \<open>uppersht = value_short\<close> and \<open>budget = value - value_short\<close> (Python's float difference);
  when \<open>value_short\<close> is 0 (or less) it has \<open>budget = value\<close> and the short flag of the
  freshly estimated object.
\<close>

theorem budget_constraints_of_entry_points:
  "(time_factor (upper (freq opts)) = Some tf \<longrightarrow>
    (target_risk > - 1 \<longrightarrow> upper_risk risk_measure \<noteq> None) \<longrightarrow>
      (\<exists>p. mean_risk_port rk (fetch_returns yfm stocks opts) opts risk_measure alpha target_return
              target_risk mean covariance d_ewma value value_short = Inr p
         \<and> get_mean_risk_portfolio yfm rk stocks opts risk_measure objective risk_free_rate
              risk_aversion alpha target_return target_risk mean covariance d_ewma value
              value_short =
            round_and_return
              (optimization rk p ''Classic'' risk_measure objective (fdiv risk_free_rate tf)
                 (Some risk_aversion) True)
              (fetch_returns yfm stocks opts)
         \<and> upperlng p = value
         \<and> (value_short > 0 \<longrightarrow>
               sht p \<and> uppersht p = value_short \<and> budget p = fsub value value_short)
         \<and> (value_short \<le> 0 \<longrightarrow>
               budget p = value
               \<and> sht p = sht (assets_stats rk
                                (Portfolio rk (fetch_returns yfm stocks opts) (Some alpha))
                                mean covariance d_ewma))))
   \<and> (let q = max_diversification_port rk (fetch_returns yfm stocks opts) covariance d_ewma value
                value_short
      in get_max_diversification_portfolio yfm rk stocks opts covariance d_ewma value
           value_short =
         round_and_return (optimization rk q ''Classic'' ''MV'' ''Sharpe'' 0 None True)
           (fetch_returns yfm stocks opts)
         \<and> upperlng q = value
         \<and> (value_short > 0 \<longrightarrow>
               sht q \<and> uppersht q = value_short \<and> budget q = fsub value value_short)
         \<and> (value_short \<le> 0 \<longrightarrow>
               budget q = value
               \<and> sht q = sht (assets_stats rk (Portfolio rk (fetch_returns yfm stocks opts) None)
                                ''hist'' covariance d_ewma)))
   \<and> (let q = max_decorrelation_port rk (fetch_returns yfm stocks opts) covariance d_ewma value
                value_short
      in get_max_decorrelation_portfolio yfm rk stocks opts covariance d_ewma value
           value_short =
         round_and_return (optimization rk q ''Classic'' ''MV'' ''MinRisk'' 0 None True)
           (fetch_returns yfm stocks opts)
         \<and> upperlng q = value
         \<and> (value_short > 0 \<longrightarrow>
               sht q \<and> uppersht q = value_short \<and> budget q = fsub value value_short)
         \<and> (value_short \<le> 0 \<longrightarrow>
               budget q = value
               \<and> sht q = sht (assets_stats rk (Portfolio rk (fetch_returns yfm stocks opts) None)
                                ''hist'' covariance d_ewma)))"
proof (intro conjI impI)
  assume tf: "time_factor (upper (freq opts)) = Some tf"
    and reg: "target_risk > - 1 \<longrightarrow> upper_risk risk_measure \<noteq> None"
  obtain p where p: "mean_risk_port rk (fetch_returns yfm stocks opts) opts risk_measure alpha
      target_return target_risk mean covariance d_ewma value value_short = Inr p"
    using mean_risk_port_returns [OF tf reg] by blast
  note b = mean_risk_port_budget [OF p]
  have "upperlng p = value"
    "value_short > 0 \<longrightarrow> sht p \<and> uppersht p = value_short \<and> budget p = fsub value value_short"
    "value_short \<le> 0 \<longrightarrow>
       budget p = value
       \<and> sht p = sht (assets_stats rk (Portfolio rk (fetch_returns yfm stocks opts) (Some alpha))
                        mean covariance d_ewma)"
    by (simp_all add: b budget_constraints_simps)
  then show "\<exists>p. mean_risk_port rk (fetch_returns yfm stocks opts) opts risk_measure alpha
              target_return target_risk mean covariance d_ewma value value_short = Inr p
         \<and> get_mean_risk_portfolio yfm rk stocks opts risk_measure objective risk_free_rate
              risk_aversion alpha target_return target_risk mean covariance d_ewma value
              value_short =
            round_and_return
              (optimization rk p ''Classic'' risk_measure objective (fdiv risk_free_rate tf)
                 (Some risk_aversion) True)
              (fetch_returns yfm stocks opts)
         \<and> upperlng p = value
         \<and> (value_short > 0 \<longrightarrow>
               sht p \<and> uppersht p = value_short \<and> budget p = fsub value value_short)
         \<and> (value_short \<le> 0 \<longrightarrow>
               budget p = value
               \<and> sht p = sht (assets_stats rk
                                (Portfolio rk (fetch_returns yfm stocks opts) (Some alpha))
                                mean covariance d_ewma))"
    using p get_mean_risk_portfolio_call [OF tf p] by blast
next
  show "let q = max_diversification_port rk (fetch_returns yfm stocks opts) covariance d_ewma value
                value_short
      in get_max_diversification_portfolio yfm rk stocks opts covariance d_ewma value
           value_short =
         round_and_return (optimization rk q ''Classic'' ''MV'' ''Sharpe'' 0 None True)
           (fetch_returns yfm stocks opts)
         \<and> upperlng q = value
         \<and> (value_short > 0 \<longrightarrow>
               sht q \<and> uppersht q = value_short \<and> budget q = fsub value value_short)
         \<and> (value_short \<le> 0 \<longrightarrow>
               budget q = value
               \<and> sht q = sht (assets_stats rk (Portfolio rk (fetch_returns yfm stocks opts) None)
                                ''hist'' covariance d_ewma))"
    by (simp add: get_max_diversification_portfolio_def max_diversification_port_def Let_def
          budget_constraints_simps)
next
  show "let q = max_decorrelation_port rk (fetch_returns yfm stocks opts) covariance d_ewma value
                value_short
      in get_max_decorrelation_portfolio yfm rk stocks opts covariance d_ewma value
           value_short =
         round_and_return (optimization rk q ''Classic'' ''MV'' ''MinRisk'' 0 None True)
           (fetch_returns yfm stocks opts)
         \<and> upperlng q = value
         \<and> (value_short > 0 \<longrightarrow>
               sht q \<and> uppersht q = value_short \<and> budget q = fsub value value_short)
         \<and> (value_short \<le> 0 \<longrightarrow>
               budget q = value
               \<and> sht q = sht (assets_stats rk (Portfolio rk (fetch_returns yfm stocks opts) None)
                                ''hist'' covariance d_ewma))"
    by (simp add: get_max_decorrelation_portfolio_def max_decorrelation_port_def Let_def
          budget_constraints_simps)
qed

lemma round_weights_demo:
  "round_weights [(''A'', 3 / 5), (''B'', 2 / 5)] = [(''A'', 3 / 5), (''B'', 2 / 5)]"
  by (simp add: round_weights_def decimal_round_def round_half_even_def Let_def)

lemma squeeze_to_dict_demo:
  "squeeze_to_dict [(''A'', 3 / 5), (''B'', 2 / 5 :: real)] = Inr [(''A'', 3 / 5), (''B'', 2 / 5)]"
  by (simp add: squeeze_to_dict_def)

lemma demo_round: "round_and_return demo_answer demo_returns =
    Inr (Some [(''A'', 3 / 5), (''B'', 2 / 5)], Some demo_returns)"
  "scale_round_and_return 1 demo_answer demo_returns =
    Inr (Some [(''A'', 3 / 5), (''B'', 2 / 5)], Some demo_returns)"
  by (simp_all add: round_and_return_def scale_round_and_return_def demo_answer_def
        round_weights_demo squeeze_to_dict_demo scale_weights_def)

lemma demo_budget_engine_simps:
  "Portfolio (demo_budget_engine lng short sh bud) = demo_port"
  "assets_stats (demo_budget_engine lng short sh bud) p mm mc d = p"
  "cov2corr (demo_budget_engine lng short sh bud) c = c"
  "optimization (demo_budget_engine lng short sh bud) p m1 r1 o1 f1 l1 h1 =
     (if upperlng p = lng \<and> sht p = short \<and> (short \<longrightarrow> uppersht p = sh) \<and> budget p = bud
      then demo_answer else None)"
  by (simp_all add: demo_budget_engine_def demo_engine_def)

lemma fsub_demo: "fsub 1 (1 / 4) = 3 / 4"
  using fl_representable [of 3 "- 2"] by (simp add: fsub_def emin_def)

theorem budget_constraints_of_entry_points_witness:
  "get_mean_risk_portfolio demo_provider (demo_budget_engine 1 True (1 / 4) (3 / 4))
       [''A'', ''B''] demo_opts ''MV'' ''Sharpe'' 0 2 (1 / 20) (- 1) (- 1) ''hist'' ''hist''
       (47 / 50) 1 (1 / 4) =
     Inr (Some [(''A'', 3 / 5), (''B'', 2 / 5)], Some demo_returns)
   \<and> get_max_diversification_portfolio demo_provider (demo_budget_engine 1 True (1 / 4) (3 / 4))
       [''A'', ''B''] demo_opts ''hist'' (47 / 50) 1 (1 / 4) =
     Inr (Some [(''A'', 3 / 5), (''B'', 2 / 5)], Some demo_returns)
   \<and> get_max_decorrelation_portfolio demo_provider (demo_budget_engine 1 True (1 / 4) (3 / 4))
       [''A'', ''B''] demo_opts ''hist'' (47 / 50) 1 (1 / 4) =
     Inr (Some [(''A'', 3 / 5), (''B'', 2 / 5)], Some demo_returns)
   \<and> get_mean_risk_portfolio demo_provider (demo_budget_engine 1 False 0 1)
       [''A'', ''B''] demo_opts ''MV'' ''Sharpe'' 0 2 (1 / 20) (- 1) (- 1) ''hist'' ''hist''
       (47 / 50) 1 0 =
     Inr (Some [(''A'', 3 / 5), (''B'', 2 / 5)], Some demo_returns)
   \<and> get_max_diversification_portfolio demo_provider (demo_budget_engine 1 False 0 1)
       [''A'', ''B''] demo_opts ''hist'' (47 / 50) 1 0 =
     Inr (Some [(''A'', 3 / 5), (''B'', 2 / 5)], Some demo_returns)
   \<and> get_max_decorrelation_portfolio demo_provider (demo_budget_engine 1 False 0 1)
       [''A'', ''B''] demo_opts ''hist'' (47 / 50) 1 0 =
     Inr (Some [(''A'', 3 / 5), (''B'', 2 / 5)], Some demo_returns)"
proof -
  let ?s = "demo_budget_engine 1 True (1 / 4) (3 / 4)"
  let ?l = "demo_budget_engine 1 False 0 1"
  have reg: "(- 1 :: real) > - 1 \<longrightarrow> upper_risk ''MV'' \<noteq> None" by simp
  have fresh: "\<not> sht (assets_stats (demo_budget_engine lng short sh bud)
      (Portfolio (demo_budget_engine lng short sh bud) demo_returns a) mm mc d)"
    for lng short sh bud a mm mc d
    by (simp add: demo_budget_engine_simps demo_port_def)
  note s = budget_constraints_of_entry_points [where rk = ?s and yfm = demo_provider
      and stocks = "[''A'', ''B'']" and opts = demo_opts and tf = 252 and target_risk = "- 1"
      and risk_measure = "''MV''" and alpha = "1 / 20" and target_return = "- 1"
      and mean = "''hist''" and covariance = "''hist''" and d_ewma = "47 / 50"
      and value_short = "1 / 4" and objective = "''Sharpe''" and risk_free_rate = 0
      and risk_aversion = 2, of 1, unfolded demo_fetch Let_def]
  note l = budget_constraints_of_entry_points [where rk = ?l and yfm = demo_provider
      and stocks = "[''A'', ''B'']" and opts = demo_opts and tf = 252 and target_risk = "- 1"
      and risk_measure = "''MV''" and alpha = "1 / 20" and target_return = "- 1"
      and mean = "''hist''" and covariance = "''hist''" and d_ewma = "47 / 50"
      and value_short = 0 and objective = "''Sharpe''" and risk_free_rate = 0
      and risk_aversion = 2, of 1, unfolded demo_fetch Let_def]
  have a1: "get_mean_risk_portfolio demo_provider ?s [''A'', ''B''] demo_opts ''MV'' ''Sharpe'' 0 2
      (1 / 20) (- 1) (- 1) ''hist'' ''hist'' (47 / 50) 1 (1 / 4) =
      Inr (Some [(''A'', 3 / 5), (''B'', 2 / 5)], Some demo_returns)"
    using s [THEN conjunct1, THEN mp, OF demo_freq, THEN mp, OF reg]
    by (auto simp add: demo_budget_engine_simps fsub_demo demo_round)
  have a2: "get_max_diversification_portfolio demo_provider ?s [''A'', ''B''] demo_opts ''hist''
      (47 / 50) 1 (1 / 4) = Inr (Some [(''A'', 3 / 5), (''B'', 2 / 5)], Some demo_returns)"
    using s [THEN conjunct2, THEN conjunct1]
    by (simp add: demo_budget_engine_simps fsub_demo demo_round)
  have a3: "get_max_decorrelation_portfolio demo_provider ?s [''A'', ''B''] demo_opts ''hist''
      (47 / 50) 1 (1 / 4) = Inr (Some [(''A'', 3 / 5), (''B'', 2 / 5)], Some demo_returns)"
    using s [THEN conjunct2, THEN conjunct2]
    by (simp add: demo_budget_engine_simps fsub_demo demo_round)
  have b1: "get_mean_risk_portfolio demo_provider ?l [''A'', ''B''] demo_opts ''MV'' ''Sharpe'' 0 2
      (1 / 20) (- 1) (- 1) ''hist'' ''hist'' (47 / 50) 1 0 =
      Inr (Some [(''A'', 3 / 5), (''B'', 2 / 5)], Some demo_returns)"
    using l [THEN conjunct1, THEN mp, OF demo_freq, THEN mp, OF reg] fresh
    by (auto simp add: demo_budget_engine_simps demo_round)
  have b2: "get_max_diversification_portfolio demo_provider ?l [''A'', ''B''] demo_opts ''hist''
      (47 / 50) 1 0 = Inr (Some [(''A'', 3 / 5), (''B'', 2 / 5)], Some demo_returns)"
    using l [THEN conjunct2, THEN conjunct1] fresh
    by (simp add: demo_budget_engine_simps demo_round)
  have b3: "get_max_decorrelation_portfolio demo_provider ?l [''A'', ''B''] demo_opts ''hist''
      (47 / 50) 1 0 = Inr (Some [(''A'', 3 / 5), (''B'', 2 / 5)], Some demo_returns)"
    using l [THEN conjunct2, THEN conjunct2] fresh
    by (simp add: demo_budget_engine_simps demo_round)
  show ?thesis using a1 a2 a3 b1 b2 b3 by (intro conjI)
qed

subsection \<open>Risk contributions\<close>









subsection \<open>The no-solution sentinel\<close>

text \<open>
  C4. In each of the six optimisation entry points (mean-risk, maximal diversification, maximal
  decorrelation, risk parity, relaxed risk parity, hierarchical), when the call of the engine
  returns \<^verbatim>\<open>None\<close>, the entry point returns the pair of \<^verbatim>\<open>None\<close> and the return matrix:
  it raises nothing, and neither rounds nor rescales.
\<close>

theorem no_solution_propagates:
  "(time_factor (upper (freq opts)) = Some tf \<longrightarrow>
      mean_risk_port rk (fetch_returns yfm stocks opts) opts risk_measure alpha target_return
        target_risk mean covariance d_ewma value value_short = Inr p \<longrightarrow>
      optimization rk p ''Classic'' risk_measure objective (fdiv risk_free_rate tf)
        (Some risk_aversion) True = None \<longrightarrow>
      get_mean_risk_portfolio yfm rk stocks opts risk_measure objective risk_free_rate
        risk_aversion alpha target_return target_risk mean covariance d_ewma value value_short =
      Inr (None, Some (fetch_returns yfm stocks opts)))
   \<and> (optimization rk
        (max_diversification_port rk (fetch_returns yfm stocks opts) covariance d_ewma value
           value_short) ''Classic'' ''MV'' ''Sharpe'' 0 None True = None \<longrightarrow>
      get_max_diversification_portfolio yfm rk stocks opts covariance d_ewma value value_short =
      Inr (None, Some (fetch_returns yfm stocks opts)))
   \<and> (optimization rk
        (max_decorrelation_port rk (fetch_returns yfm stocks opts) covariance d_ewma value
           value_short) ''Classic'' ''MV'' ''MinRisk'' 0 None True = None \<longrightarrow>
      get_max_decorrelation_portfolio yfm rk stocks opts covariance d_ewma value value_short =
      Inr (None, Some (fetch_returns yfm stocks opts)))
   \<and> (time_factor (upper (freq opts)) = Some tf \<longrightarrow>
      risk_parity_port rk (fetch_returns yfm stocks opts) opts (Some alpha) target_return mean
        covariance d_ewma = Inr q \<longrightarrow>
      rp_optimization rk q ''Classic'' risk_measure (fdiv risk_free_rate tf)
        (normalize_risk_cont risk_cont) True = None \<longrightarrow>
      get_risk_parity_portfolio yfm rk stocks opts risk_measure risk_cont risk_free_rate alpha
        target_return mean covariance d_ewma value =
      Inr (None, Some (fetch_returns yfm stocks opts)))
   \<and> (risk_parity_port rk (fetch_returns yfm stocks opts) opts None target_return mean
        covariance d_ewma = Inr r \<longrightarrow>
      rrp_optimization rk r ''Classic'' version penal_factor (normalize_risk_cont risk_cont)
        True = None \<longrightarrow>
      get_rel_risk_parity_portfolio yfm rk stocks opts version risk_cont penal_factor
        target_return mean covariance d_ewma value =
      Inr (None, Some (fetch_returns yfm stocks opts)))
   \<and> (time_factor (upper (freq opts)) = Some tf \<longrightarrow>
      hc_optimization rk (HCPortfolio (fetch_returns yfm stocks opts) alpha a_sim beta b_sim)
        model codependence covariance objective risk_measure (fdiv risk_free_rate tf)
        risk_aversion (if linkage = ''dbht'' then upper linkage else linkage) k max_k bins_info
        alpha_tail leaf_order d_ewma = None \<longrightarrow>
      get_hcp_portfolio yfm rk stocks opts model codependence covariance objective risk_measure
        risk_free_rate risk_aversion alpha a_sim beta b_sim linkage k max_k bins_info alpha_tail
        leaf_order d_ewma value =
      Inr (None, Some (fetch_returns yfm stocks opts)))"
proof (intro conjI impI)
  assume "time_factor (upper (freq opts)) = Some tf"
    and "mean_risk_port rk (fetch_returns yfm stocks opts) opts risk_measure alpha target_return
        target_risk mean covariance d_ewma value value_short = Inr p"
    and "optimization rk p ''Classic'' risk_measure objective (fdiv risk_free_rate tf)
        (Some risk_aversion) True = None"
  then show "get_mean_risk_portfolio yfm rk stocks opts risk_measure objective risk_free_rate
        risk_aversion alpha target_return target_risk mean covariance d_ewma value value_short =
      Inr (None, Some (fetch_returns yfm stocks opts))"
    by (simp add: get_mean_risk_portfolio_def getitem_def Let_def round_and_return_def)
next
  assume "optimization rk
        (max_diversification_port rk (fetch_returns yfm stocks opts) covariance d_ewma value
           value_short) ''Classic'' ''MV'' ''Sharpe'' 0 None True = None"
  then show "get_max_diversification_portfolio yfm rk stocks opts covariance d_ewma value
      value_short = Inr (None, Some (fetch_returns yfm stocks opts))"
    by (simp add: get_max_diversification_portfolio_def Let_def round_and_return_def)
next
  assume "optimization rk
        (max_decorrelation_port rk (fetch_returns yfm stocks opts) covariance d_ewma value
           value_short) ''Classic'' ''MV'' ''MinRisk'' 0 None True = None"
  then show "get_max_decorrelation_portfolio yfm rk stocks opts covariance d_ewma value
      value_short = Inr (None, Some (fetch_returns yfm stocks opts))"
    by (simp add: get_max_decorrelation_portfolio_def Let_def round_and_return_def)
next
  assume "time_factor (upper (freq opts)) = Some tf"
    and "risk_parity_port rk (fetch_returns yfm stocks opts) opts (Some alpha) target_return mean
        covariance d_ewma = Inr q"
    and "rp_optimization rk q ''Classic'' risk_measure (fdiv risk_free_rate tf)
        (normalize_risk_cont risk_cont) True = None"
  then show "get_risk_parity_portfolio yfm rk stocks opts risk_measure risk_cont risk_free_rate
        alpha target_return mean covariance d_ewma value =
      Inr (None, Some (fetch_returns yfm stocks opts))"
    by (simp add: get_risk_parity_portfolio_def getitem_def Let_def scale_round_and_return_def)
next
  assume "risk_parity_port rk (fetch_returns yfm stocks opts) opts None target_return mean
        covariance d_ewma = Inr r"
    and "rrp_optimization rk r ''Classic'' version penal_factor (normalize_risk_cont risk_cont)
        True = None"
  then show "get_rel_risk_parity_portfolio yfm rk stocks opts version risk_cont penal_factor
        target_return mean covariance d_ewma value =
      Inr (None, Some (fetch_returns yfm stocks opts))"
    by (simp add: get_rel_risk_parity_portfolio_def Let_def scale_round_and_return_def)
next
  assume "time_factor (upper (freq opts)) = Some tf"
    and "hc_optimization rk (HCPortfolio (fetch_returns yfm stocks opts) alpha a_sim beta b_sim)
        model codependence covariance objective risk_measure (fdiv risk_free_rate tf)
        risk_aversion (if linkage = ''dbht'' then upper linkage else linkage) k max_k bins_info
        alpha_tail leaf_order d_ewma = None"
  then show "get_hcp_portfolio yfm rk stocks opts model codependence covariance objective
        risk_measure risk_free_rate risk_aversion alpha a_sim beta b_sim linkage k max_k
        bins_info alpha_tail leaf_order d_ewma value =
      Inr (None, Some (fetch_returns yfm stocks opts))"
    by (simp add: get_hcp_portfolio_def getitem_def Let_def scale_round_and_return_def)
qed

theorem no_solution_propagates_witness:
  "get_mean_risk_portfolio demo_provider (demo_engine None) [''A'', ''B''] demo_opts ''MV''
     ''Sharpe'' 0 2 0.05 (- 1) 0.01 ''hist'' ''hist'' 0.94 1 0 = Inr (None, Some demo_returns)
   \<and> get_max_diversification_portfolio demo_provider (demo_engine None) [''A'', ''B''] demo_opts
       ''hist'' 0.94 1 0 = Inr (None, Some demo_returns)
   \<and> get_max_decorrelation_portfolio demo_provider (demo_engine None) [''A'', ''B''] demo_opts
       ''hist'' 0.94 1 0 = Inr (None, Some demo_returns)
   \<and> get_risk_parity_portfolio demo_provider (demo_engine None) [''A'', ''B''] demo_opts ''MV''
       None 0 0.05 (- 1) ''hist'' ''hist'' 0.94 1 = Inr (None, Some demo_returns)
   \<and> get_rel_risk_parity_portfolio demo_provider (demo_engine None) [''A'', ''B''] demo_opts
       ''A'' None 1 (- 1) ''hist'' ''hist'' 0.94 1 = Inr (None, Some demo_returns)
   \<and> get_hcp_portfolio demo_provider (demo_engine None) [''A'', ''B''] demo_opts ''HRP''
       ''pearson'' ''hist'' ''Sharpe'' ''MV'' 0 2 0.05 100 None None ''single'' 0 10 ''KN''
       0.05 True 0.94 1 = Inr (None, Some demo_returns)"
proof -
  obtain p where p: "mean_risk_port (demo_engine None)
      (fetch_returns demo_provider [''A'', ''B''] demo_opts) demo_opts ''MV'' 0.05 (- 1) 0.01
      ''hist'' ''hist'' 0.94 1 0 = Inr p"
    using demo_freq
    by (simp add: mean_risk_port_def Let_def getitem_def upper_risk_def)
  obtain q where q: "risk_parity_port (demo_engine None)
      (fetch_returns demo_provider [''A'', ''B''] demo_opts) demo_opts (Some 0.05) (- 1) ''hist''
      ''hist'' 0.94 = Inr q"
    by (simp add: risk_parity_port_def Let_def)
  obtain r where r: "risk_parity_port (demo_engine None)
      (fetch_returns demo_provider [''A'', ''B''] demo_opts) demo_opts None (- 1) ''hist''
      ''hist'' 0.94 = Inr r"
    by (simp add: risk_parity_port_def Let_def)
  show ?thesis
    using no_solution_propagates [where opts = demo_opts and tf = 252
        and rk = "demo_engine None" and yfm = demo_provider and stocks = "[''A'', ''B'']"
        and risk_measure = "''MV''" and alpha = "0.05" and target_return = "- 1"
        and target_risk = "0.01" and mean = "''hist''" and covariance = "''hist''"
        and d_ewma = "0.94" and value_short = 0 and p = p
        and objective = "''Sharpe''" and risk_free_rate = 0 and risk_aversion = 2 and q = q
        and risk_cont = None and r = r and version = "''A''" and penal_factor = 1
        and a_sim = 100 and beta = None and b_sim = None and model = "''HRP''"
        and codependence = "''pearson''" and linkage = "''single''" and k = 0 and max_k = 10
        and bins_info = "''KN''" and alpha_tail = "0.05" and leaf_order = True, of 1]
      p q r demo_freq
    by (simp add: demo_engine_simps demo_fetch)
qed

subsection \<open>The output contract\<close>

lemma round_and_return_snd:
  "round_and_return weights stock_returns = Inr (w, r) \<Longrightarrow> r = Some stock_returns"
  by (auto simp add: round_and_return_def split: option.splits sum.splits)

lemma scale_round_and_return_snd:
  "scale_round_and_return value weights stock_returns = Inr (w, r) \<Longrightarrow> r = Some stock_returns"
  by (auto simp add: scale_round_and_return_def Let_def split: option.splits sum.splits)

lemma fl_tenth: "fl (3602879701896397 / 2 ^ 55) = 3602879701896397 / 2 ^ 55"
  using fl_representable [of 3602879701896397 "- 55"] by (simp add: emin_def)

lemma fl_three_tenths:
  "fl (3602879701896397 / 2 ^ 55 + 3602879701896397 / 2 ^ 54) = 5404319552844596 / 2 ^ 54"
proof -
  have "fl (10808639105689191 / 2 ^ 55) = of_int 5404319552844596 * 2 powi (- 2 - 52)"
    by (rule fl_eqI) (simp_all add: emin_def round_half_even_def Let_def)
  then show ?thesis by simp
qed

lemma fl_difference: "fl (5404319552844596 / 2 ^ 54 + - 5404319552844595 / 2 ^ 54) = 1 / 2 ^ 54"
  using fl_representable [of 1 "- 54"] by (simp add: emin_def)

lemma fadd_small:
  "fadd 0 0 = 0" "fadd 0 3 = 3" "fadd 3 1 = 4"
  using fl_representable [of 3 0] fl_representable [of 4 0]
  by (simp_all add: fadd_def fl_def emin_def)

lemma demo_info_loop:
  "property_loop demo_info ''marketCap'' [''A'', ''B''] [] 0 = Inr ([(''A'', 3), (''B'', 1)], 4)"
  "property_loop demo_info_none ''marketCap'' [''A'', ''B''] [] 0 =
     Inr ([(''A'', 0), (''B'', 0)], 0)"
  by (simp_all add: demo_info_def demo_info_none_def getitem_def fadd_small)

lemma demo_beta_loop:
  "property_loop demo_info_beta ''beta'' [''A'', ''B'', ''C''] [] 0 =
     Inr ([(''A'', 3602879701896397 / 2 ^ 55), (''B'', 3602879701896397 / 2 ^ 54),
           (''C'', - 5404319552844595 / 2 ^ 54)], 1 / 2 ^ 54)"
proof -
  have a: "fadd 0 (3602879701896397 / 2 ^ 55) = 3602879701896397 / 2 ^ 55"
    unfolding fadd_def using fl_tenth by simp
  have b: "fadd (3602879701896397 / 2 ^ 55) (3602879701896397 / 2 ^ 54) =
      5404319552844596 / 2 ^ 54"
    unfolding fadd_def by (rule fl_three_tenths)
  have c: "fadd (5404319552844596 / 2 ^ 54) (- 5404319552844595 / 2 ^ 54) = 1 / 2 ^ 54"
    unfolding fadd_def by (rule fl_difference)
  have "property_loop demo_info_beta ''beta'' [''A'', ''B'', ''C''] [] 0 =
      Inr ([(''A'', 3602879701896397 / 2 ^ 55), (''B'', 3602879701896397 / 2 ^ 54),
            (''C'', - 5404319552844595 / 2 ^ 54)],
           fadd (fadd (fadd 0 (3602879701896397 / 2 ^ 55)) (3602879701896397 / 2 ^ 54))
             (- 5404319552844595 / 2 ^ 54))"
    by (simp add: demo_info_beta_def getitem_def Let_def)
  then show ?thesis by (simp only: a b c)
qed

text \<open>
  C5, as amended. \<^verbatim>\<open>get_equal_weights\<close> always returns a pair of weights and the return
  matrix. Each of the other seven entry points that return a pair (\<^verbatim>\<open>get_property_weights\<close>
  and the six optimisation entry points), whenever it returns, returns the return matrix as
  the second component, with one exception: \<^verbatim>\<open>get_property_weights\<close> returns
  \<^verbatim>\<open>(None, None)\<close> when the float sum of the attribute values is zero (and only then).
  \<^verbatim>\<open>generate_random_portfolios\<close> returns a single table and no pair.
\<close>

theorem return_matrix_second:
  "(\<exists>e. get_equal_weights yfm stocks opts value =
          Inr (Some e, Some (fetch_returns yfm stocks opts)))
   \<and> (get_property_weights yfm info stocks opts s_property value = Inr (w, r) \<longrightarrow>
        (w \<noteq> None \<and> r = Some (fetch_returns yfm stocks opts)
           \<and> (\<exists>prop prop_sum. property_loop info s_property stocks [] 0 = Inr (prop, prop_sum)
                \<and> prop_sum \<noteq> 0))
        \<or> (w = None \<and> r = None
           \<and> (\<exists>prop. property_loop info s_property stocks [] 0 = Inr (prop, 0))))
   \<and> (get_mean_risk_portfolio yfm rk stocks opts risk_measure objective risk_free_rate
        risk_aversion alpha target_return target_risk mean covariance d_ewma value value_short =
        Inr (w, r) \<longrightarrow> r = Some (fetch_returns yfm stocks opts))
   \<and> (get_max_diversification_portfolio yfm rk stocks opts covariance d_ewma value value_short =
        Inr (w, r) \<longrightarrow> r = Some (fetch_returns yfm stocks opts))
   \<and> (get_max_decorrelation_portfolio yfm rk stocks opts covariance d_ewma value value_short =
        Inr (w, r) \<longrightarrow> r = Some (fetch_returns yfm stocks opts))
   \<and> (get_risk_parity_portfolio yfm rk stocks opts risk_measure risk_cont risk_free_rate alpha
        target_return mean covariance d_ewma value = Inr (w, r) \<longrightarrow>
        r = Some (fetch_returns yfm stocks opts))
   \<and> (get_rel_risk_parity_portfolio yfm rk stocks opts version risk_cont penal_factor
        target_return mean covariance d_ewma value = Inr (w, r) \<longrightarrow>
        r = Some (fetch_returns yfm stocks opts))
   \<and> (get_hcp_portfolio yfm rk stocks opts model codependence covariance objective risk_measure
        risk_free_rate risk_aversion alpha a_sim beta b_sim linkage k max_k bins_info alpha_tail
        leaf_order d_ewma value = Inr (w, r) \<longrightarrow> r = Some (fetch_returns yfm stocks opts))"
proof (intro conjI impI)
  show "\<exists>e. get_equal_weights yfm stocks opts value =
          Inr (Some e, Some (fetch_returns yfm stocks opts))"
    by (simp add: get_equal_weights_def Let_def)
next
  assume "get_property_weights yfm info stocks opts s_property value = Inr (w, r)"
  then show "(w \<noteq> None \<and> r = Some (fetch_returns yfm stocks opts)
           \<and> (\<exists>prop prop_sum. property_loop info s_property stocks [] 0 = Inr (prop, prop_sum)
                \<and> prop_sum \<noteq> 0))
        \<or> (w = None \<and> r = None
           \<and> (\<exists>prop. property_loop info s_property stocks [] 0 = Inr (prop, 0)))"
    by (auto simp add: get_property_weights_def Let_def split: if_splits sum.splits)
next
  assume "get_mean_risk_portfolio yfm rk stocks opts risk_measure objective risk_free_rate
        risk_aversion alpha target_return target_risk mean covariance d_ewma value value_short =
        Inr (w, r)"
  then show "r = Some (fetch_returns yfm stocks opts)"
    by (auto simp add: get_mean_risk_portfolio_def Let_def split: sum.splits
          dest: round_and_return_snd)
next
  assume "get_max_diversification_portfolio yfm rk stocks opts covariance d_ewma value
      value_short = Inr (w, r)"
  then show "r = Some (fetch_returns yfm stocks opts)"
    by (auto simp add: get_max_diversification_portfolio_def Let_def
          dest: round_and_return_snd)
next
  assume "get_max_decorrelation_portfolio yfm rk stocks opts covariance d_ewma value
      value_short = Inr (w, r)"
  then show "r = Some (fetch_returns yfm stocks opts)"
    by (auto simp add: get_max_decorrelation_portfolio_def Let_def
          dest: round_and_return_snd)
next
  assume "get_risk_parity_portfolio yfm rk stocks opts risk_measure risk_cont risk_free_rate alpha
        target_return mean covariance d_ewma value = Inr (w, r)"
  then show "r = Some (fetch_returns yfm stocks opts)"
    by (auto simp add: get_risk_parity_portfolio_def Let_def split: sum.splits
          dest: scale_round_and_return_snd)
next
  assume "get_rel_risk_parity_portfolio yfm rk stocks opts version risk_cont penal_factor
        target_return mean covariance d_ewma value = Inr (w, r)"
  then show "r = Some (fetch_returns yfm stocks opts)"
    by (auto simp add: get_rel_risk_parity_portfolio_def Let_def split: sum.splits
          dest: scale_round_and_return_snd)
next
  assume "get_hcp_portfolio yfm rk stocks opts model codependence covariance objective
        risk_measure risk_free_rate risk_aversion alpha a_sim beta b_sim linkage k max_k
        bins_info alpha_tail leaf_order d_ewma value = Inr (w, r)"
  then show "r = Some (fetch_returns yfm stocks opts)"
    by (auto simp add: get_hcp_portfolio_def Let_def split: sum.splits
          dest: scale_round_and_return_snd)
qed

theorem return_matrix_second_witness:
  "(\<exists>w. get_equal_weights demo_provider [''A'', ''B''] demo_opts 1 =
          Inr (Some w, Some demo_returns))
   \<and> (\<exists>w. get_property_weights demo_provider demo_info [''A'', ''B''] demo_opts ''marketCap'' 1 =
          Inr (Some w, Some demo_returns))
   \<and> (\<exists>w. get_property_weights demo_provider demo_info_beta [''A'', ''B'', ''C''] demo_opts
          ''beta'' 1 = Inr (Some w, Some demo_returns))
   \<and> get_property_weights demo_provider demo_info_none [''A'', ''B''] demo_opts ''marketCap'' 1 =
          Inr (None, None)
   \<and> (\<exists>w. get_mean_risk_portfolio demo_provider (demo_engine demo_answer) [''A'', ''B'']
          demo_opts ''MV'' ''Sharpe'' 0 2 0.05 (- 1) (- 1) ''hist'' ''hist'' 0.94 1 0 =
          Inr (w, Some demo_returns))
   \<and> (\<exists>w. get_max_diversification_portfolio demo_provider (demo_engine demo_answer)
          [''A'', ''B''] demo_opts ''hist'' 0.94 1 0 = Inr (w, Some demo_returns))
   \<and> (\<exists>w. get_max_decorrelation_portfolio demo_provider (demo_engine demo_answer)
          [''A'', ''B''] demo_opts ''hist'' 0.94 1 0 = Inr (w, Some demo_returns))
   \<and> (\<exists>w. get_risk_parity_portfolio demo_provider (demo_engine demo_answer) [''A'', ''B'']
          demo_opts ''MV'' None 0 0.05 (- 1) ''hist'' ''hist'' 0.94 1 = Inr (w, Some demo_returns))
   \<and> (\<exists>w. get_rel_risk_parity_portfolio demo_provider (demo_engine demo_answer) [''A'', ''B'']
          demo_opts ''A'' None 1 (- 1) ''hist'' ''hist'' 0.94 1 = Inr (w, Some demo_returns))
   \<and> (\<exists>w. get_hcp_portfolio demo_provider (demo_engine demo_answer) [''A'', ''B''] demo_opts
          ''HRP'' ''pearson'' ''hist'' ''Sharpe'' ''MV'' 0 2 0.05 100 None None ''single'' 0 10
          ''KN'' 0.05 True 0.94 1 = Inr (w, Some demo_returns))"
proof -
  note t = return_matrix_second [where yfm = demo_provider and stocks = "[''A'', ''B'']"
      and opts = demo_opts and rk = "demo_engine demo_answer"
      and s_property = "''marketCap''" and risk_measure = "''MV''" and objective = "''Sharpe''"
      and risk_free_rate = 0 and risk_aversion = 2 and alpha = "0.05" and target_return = "- 1"
      and target_risk = "- 1" and mean = "''hist''" and covariance = "''hist''"
      and d_ewma = "0.94" and value_short = 0 and risk_cont = None and version = "''A''"
      and penal_factor = 1 and model = "''HRP''" and codependence = "''pearson''"
      and a_sim = 100 and beta = None and b_sim = None and linkage = "''single''" and k = 0
      and max_k = 10 and bins_info = "''KN''" and alpha_tail = "0.05" and leaf_order = True,
      of 1, unfolded demo_fetch]
  obtain w1 where e1: "get_equal_weights demo_provider [''A'', ''B''] demo_opts 1 =
      Inr (Some w1, Some demo_returns)"
    using t [THEN conjunct1] by blast
  obtain w2 r2 where e2: "get_property_weights demo_provider demo_info [''A'', ''B''] demo_opts
      ''marketCap'' 1 = Inr (Some w2, r2)"
    by (simp add: get_property_weights_def demo_info_loop Let_def del: property_loop.simps)
  obtain wb rb where eb: "get_property_weights demo_provider demo_info_beta
      [''A'', ''B'', ''C''] demo_opts ''beta'' 1 = Inr (Some wb, rb)"
    by (simp add: get_property_weights_def demo_beta_loop Let_def del: property_loop.simps)
  have e3: "get_property_weights demo_provider demo_info_none [''A'', ''B''] demo_opts
      ''marketCap'' 1 = Inr (None, None)"
    by (simp add: get_property_weights_def demo_info_loop Let_def del: property_loop.simps)
  obtain w4 r4 where e4: "get_mean_risk_portfolio demo_provider (demo_engine demo_answer)
      [''A'', ''B''] demo_opts ''MV'' ''Sharpe'' 0 2 0.05 (- 1) (- 1) ''hist'' ''hist'' 0.94 1 0 =
      Inr (w4, r4)"
    using demo_freq
    by (simp add: get_mean_risk_portfolio_def mean_risk_port_def getitem_def Let_def
          demo_engine_simps demo_fetch demo_round)
  obtain w5 r5 where e5: "get_max_diversification_portfolio demo_provider
      (demo_engine demo_answer) [''A'', ''B''] demo_opts ''hist'' 0.94 1 0 = Inr (w5, r5)"
    by (simp add: get_max_diversification_portfolio_def Let_def demo_engine_simps demo_fetch
          demo_round)
  obtain w6 r6 where e6: "get_max_decorrelation_portfolio demo_provider
      (demo_engine demo_answer) [''A'', ''B''] demo_opts ''hist'' 0.94 1 0 = Inr (w6, r6)"
    by (simp add: get_max_decorrelation_portfolio_def Let_def demo_engine_simps demo_fetch
          demo_round)
  obtain w7 r7 where e7: "get_risk_parity_portfolio demo_provider (demo_engine demo_answer)
      [''A'', ''B''] demo_opts ''MV'' None 0 0.05 (- 1) ''hist'' ''hist'' 0.94 1 = Inr (w7, r7)"
    using demo_freq
    by (simp add: get_risk_parity_portfolio_def risk_parity_port_def getitem_def Let_def
          demo_engine_simps demo_fetch demo_round)
  obtain w8 r8 where e8: "get_rel_risk_parity_portfolio demo_provider (demo_engine demo_answer)
      [''A'', ''B''] demo_opts ''A'' None 1 (- 1) ''hist'' ''hist'' 0.94 1 = Inr (w8, r8)"
    by (simp add: get_rel_risk_parity_portfolio_def risk_parity_port_def Let_def
          demo_engine_simps demo_fetch demo_round)
  obtain w9 r9 where e9: "get_hcp_portfolio demo_provider (demo_engine demo_answer)
      [''A'', ''B''] demo_opts ''HRP'' ''pearson'' ''hist'' ''Sharpe'' ''MV'' 0 2 0.05 100 None
      None ''single'' 0 10 ''KN'' 0.05 True 0.94 1 = Inr (w9, r9)"
    using demo_freq
    by (simp add: get_hcp_portfolio_def getitem_def Let_def demo_engine_simps demo_fetch
          demo_round)
  have a2: "r2 = Some demo_returns"
    using t [where w = "Some w2" and r = r2 and info = demo_info, THEN conjunct2, THEN conjunct1,
        rule_format, OF e2]
    by simp
  have ab: "rb = Some demo_returns"
    using return_matrix_second [where yfm = demo_provider and stocks = "[''A'', ''B'', ''C'']"
        and opts = demo_opts and info = demo_info_beta and s_property = "''beta''"
        and w = "Some wb" and r = rb, of 1, unfolded demo_fetch, THEN conjunct2, THEN conjunct1,
        rule_format, OF eb]
    by simp
  have a4: "r4 = Some demo_returns"
    by (rule t [where w = w4 and r = r4, THEN conjunct2, THEN conjunct2, THEN conjunct1, rule_format, OF e4])
  have a5: "r5 = Some demo_returns"
    by (rule t [where w = w5 and r = r5, THEN conjunct2, THEN conjunct2, THEN conjunct2, THEN conjunct1, rule_format, OF e5])
  have a6: "r6 = Some demo_returns"
    by (rule t [where w = w6 and r = r6, THEN conjunct2, THEN conjunct2, THEN conjunct2, THEN conjunct2, THEN conjunct1, rule_format, OF e6])
  have a7: "r7 = Some demo_returns"
    by (rule t [where w = w7 and r = r7, THEN conjunct2, THEN conjunct2, THEN conjunct2, THEN conjunct2, THEN conjunct2, THEN conjunct1, rule_format, OF e7])
  have a8: "r8 = Some demo_returns"
    by (rule t [where w = w8 and r = r8, THEN conjunct2, THEN conjunct2, THEN conjunct2, THEN conjunct2, THEN conjunct2, THEN conjunct2, THEN conjunct1, rule_format, OF e8])
  have a9: "r9 = Some demo_returns"
    by (rule t [where w = w9 and r = r9, THEN conjunct2, THEN conjunct2, THEN conjunct2, THEN conjunct2, THEN conjunct2, THEN conjunct2, THEN conjunct2, rule_format, OF e9])
  show ?thesis
    using e1 e2 [unfolded a2] eb [unfolded ab] e3 e4 [unfolded a4] e5 [unfolded a5]
      e6 [unfolded a6] e7 [unfolded a7] e8 [unfolded a8] e9 [unfolded a9]
    by (intro conjI exI) assumption+
qed

text \<open>
  C5 as stated, for every entry point and also on the failure path of the property weighting,
  fails: with no attribute value available (each is taken as 0, and the sum is 0) the call
  returns \<^verbatim>\<open>(None, None)\<close>, whose second component is not the return matrix.
\<close>

theorem property_weights_counterexample:
  "get_property_weights demo_provider demo_info_none [''A'', ''B''] demo_opts ''marketCap'' 1 =
     Inr (None, None)
   \<and> \<not> returns_contract
         (get_property_weights demo_provider demo_info_none [''A'', ''B''] demo_opts
            ''marketCap'' 1)
         (fetch_returns demo_provider [''A'', ''B''] demo_opts)"
  by (simp add: get_property_weights_def returns_contract_def demo_info_loop Let_def
        del: property_loop.simps)

subsection \<open>Per-period target risk and back\<close>










subsection \<open>Maximal diversification\<close>

text \<open>
  C8. For all inputs \<^verbatim>\<open>get_max_diversification_portfolio\<close> calls the engine with the
  objective Sharpe, the risk measure MV and the risk-free rate 0, on a portfolio object whose
  mean vector, estimated with the method hist, has been replaced by the per-asset standard
  deviation of the return series.
\<close>

theorem max_diversification_engine_call:
  "get_max_diversification_portfolio yfm rk stocks opts covariance d_ewma value value_short =
     round_and_return
       (optimization rk
          (max_diversification_port rk (fetch_returns yfm stocks opts) covariance d_ewma value
             value_short)
          ''Classic'' ''MV'' ''Sharpe'' 0 None True)
       (fetch_returns yfm stocks opts)
   \<and> max_diversification_port rk stock_returns covariance d_ewma value value_short =
       budget_constraints
         ((assets_stats rk (Portfolio rk stock_returns None) ''hist'' covariance d_ewma)
            \<lparr>mu := std stock_returns\<rparr>)
         value value_short
   \<and> mu (max_diversification_port rk stock_returns covariance d_ewma value value_short) =
       map (\<lambda>(asset, xs). (asset, std_col xs)) stock_returns"
  by (simp add: get_max_diversification_portfolio_def max_diversification_port_def Let_def
        budget_constraints_simps std_def)

theorem max_diversification_engine_call_witness:
  "get_max_diversification_portfolio demo_provider demo_probe_engine [''A'', ''B''] demo_opts
     ''hist'' (47 / 50) 1 0 = Inr (Some [(''A'', 3 / 5), (''B'', 2 / 5)], Some demo_returns)"
proof -
  have p: "Portfolio demo_probe_engine = demo_port"
    "assets_stats demo_probe_engine q mm mc d = q" for q mm mc d
    by (simp_all add: demo_probe_engine_def demo_engine_def)
  have m: "mu (max_diversification_port demo_probe_engine demo_returns ''hist'' (47 / 50) 1 0) =
      std demo_returns"
    unfolding std_def
    by (rule max_diversification_engine_call [where rk = demo_probe_engine
          and stock_returns = demo_returns and covariance = "''hist''" and d_ewma = "47 / 50"
          and value_short = 0, of _ _ _ 1, THEN conjunct2, THEN conjunct2])
  have r: "port_returns (max_diversification_port demo_probe_engine demo_returns ''hist'' (47 / 50)
      1 0) = demo_returns"
    by (simp add: max_diversification_port_def budget_constraints_def Let_def p demo_port_def)
  have og: "optimization demo_probe_engine q ''Classic'' ''MV'' ''Sharpe'' 0 None True =
      (if mu q = std (port_returns q) then demo_answer else None)" for q
    by (simp add: demo_probe_engine_def)
  have o: "optimization demo_probe_engine
      (max_diversification_port demo_probe_engine demo_returns ''hist'' (47 / 50) 1 0)
      ''Classic'' ''MV'' ''Sharpe'' 0 None True = demo_answer"
    by (simp add: og m r)
  show ?thesis
    using max_diversification_engine_call [where rk = demo_probe_engine
        and yfm = demo_provider and stocks = "[''A'', ''B'']" and opts = demo_opts
        and covariance = "''hist''" and d_ewma = "47 / 50" and value_short = 0, of 1,
        THEN conjunct1]
    by (simp add: demo_fetch o demo_round)
qed

subsection \<open>Equal weights\<close>

lemma foldl_update_map_of:
  "map_of (foldl (\<lambda>d s. AList.update s c d) d0 xs) k =
     (if k \<in> set xs then Some c else map_of d0 k)"
  by (induction xs arbitrary: d0) (auto simp add: update_conv')

lemma foldl_update_keys:
  "fst ` set (foldl (\<lambda>d s. AList.update s c d) d0 xs) = fst ` set d0 \<union> set xs"
  by (induction xs arbitrary: d0) (auto simp add: dom_update)

lemma fdiv_one_half: "fdiv 1 2 = 1 / 2"
  using fl_representable [of 1 "- 1"] by (simp add: fdiv_def emin_def)

lemma py_round_half: "py_round (1 / 2) 5 = 1 / 2"
  using fl_representable [of 1 "- 1"]
  by (simp add: py_round_def decimal_round_def round_half_even_def emin_def)

lemma fmul_one_half: "fmul 1 (1 / 2) = 1 / 2"
  using fl_representable [of 1 "- 1"] by (simp add: fmul_def emin_def)

lemma fdiv_one_third: "fdiv 1 3 = 6004799503160661 / 2 ^ 54"
proof -
  have "fl (1 / 3) = of_int 6004799503160661 * 2 powi (- 2 - 52)"
    by (rule fl_eqI) (simp_all add: emin_def round_half_even_def Let_def)
  then show ?thesis by (simp add: fdiv_def)
qed

lemma fdiv_one_320: "fdiv 1 320 = 3602879701896397 / 2 ^ 60"
proof -
  have "fl (1 / 320) = of_int 7205759403792794 * 2 powi (- 9 - 52)"
    by (rule fl_eqI) (simp_all add: emin_def round_half_even_def Let_def)
  then show ?thesis by (simp add: fdiv_def)
qed

lemma decimal_round_third: "decimal_round (6004799503160661 / 2 ^ 54) 5 = 33333 / 100000"
  by (simp add: decimal_round_def round_half_even_def Let_def)

lemma decimal_round_320: "decimal_round (3602879701896397 / 2 ^ 60) 5 = 313 / 100000"
  by (simp add: decimal_round_def round_half_even_def Let_def)

lemma fl_33333: "fl (33333 / 100000) = 3002369727582815 / 2 ^ 53"
proof -
  have "fl (33333 / 100000) = of_int 6004739455165630 * 2 powi (- 2 - 52)"
    by (rule fl_eqI) (simp_all add: emin_def round_half_even_def Let_def)
  then show ?thesis by simp
qed

lemma fl_313: "fl (313 / 100000) = 3608644309419431 / 2 ^ 60"
proof -
  have "fl (313 / 100000) = of_int 7217288618838862 * 2 powi (- 9 - 52)"
    by (rule fl_eqI) (simp_all add: emin_def round_half_even_def Let_def)
  then show ?thesis by simp
qed

lemma fmul_hundred: "fmul 100 (3002369727582815 / 2 ^ 53) = 1172800674837037 / 2 ^ 45"
proof -
  have "fl (100 * (3002369727582815 / 2 ^ 53)) = of_int 4691202699348148 * 2 powi (5 - 52)"
    by (rule fl_eqI) (simp_all add: emin_def round_half_even_def Let_def)
  then show ?thesis by (simp add: fmul_def)
qed

text \<open>
  C9. For every list of \<open>N\<close> tickers and every value, \<^verbatim>\<open>get_equal_weights\<close> gives each
  ticker the weight \<^verbatim>\<open>value * round(1 / N, 5)\<close>, whatever the provider returns: the float
  product of the value and of the float quotient \<open>1 / N\<close> rounded to five decimal places. For
  the universe A, B and the value 1 the weights are 0.5 and 0.5. The rounding is that of the
  float: for three tickers it gives the float of 0.33333, and for 320 tickers, where the
  quotient lies just above the tie 0.003125, the float of 0.00313.
\<close>

theorem equal_weights:
  "(\<exists>w. (\<forall>yfm opts. get_equal_weights yfm stocks opts value =
             Inr (Some w, Some (fetch_returns yfm stocks opts)))
        \<and> (\<forall>s \<in> set stocks.
              map_of w s = Some (fmul value (py_round (fdiv 1 (real (length stocks))) 5)))
        \<and> fst ` set w = set stocks)
   \<and> get_equal_weights yfm [''A'', ''B''] opts 1 =
       Inr (Some [(''A'', 1 / 2), (''B'', 1 / 2)], Some (fetch_returns yfm [''A'', ''B''] opts))
   \<and> py_round (fdiv 1 3) 5 = fl (33333 / 100000)
   \<and> py_round (fdiv 1 320) 5 = fl (313 / 100000)"
proof (intro conjI)
  let ?c = "fmul value (py_round (fdiv 1 (real (length stocks))) 5)"
  let ?w = "foldl (\<lambda>d stock. AList.update stock ?c d) [] stocks"
  have "\<forall>yfm opts. get_equal_weights yfm stocks opts value =
      Inr (Some ?w, Some (fetch_returns yfm stocks opts))"
    by (simp add: get_equal_weights_def Let_def)
  moreover have "\<forall>s \<in> set stocks. map_of ?w s = Some ?c"
    by (simp add: foldl_update_map_of)
  moreover have "fst ` set ?w = set stocks"
    by (simp add: foldl_update_keys)
  ultimately show "\<exists>w. (\<forall>yfm opts. get_equal_weights yfm stocks opts value =
             Inr (Some w, Some (fetch_returns yfm stocks opts)))
        \<and> (\<forall>s \<in> set stocks.
              map_of w s = Some (fmul value (py_round (fdiv 1 (real (length stocks))) 5)))
        \<and> fst ` set w = set stocks"
    by blast
next
  show "get_equal_weights yfm [''A'', ''B''] opts 1 =
       Inr (Some [(''A'', 1 / 2), (''B'', 1 / 2)], Some (fetch_returns yfm [''A'', ''B''] opts))"
    by (simp add: get_equal_weights_def Let_def fdiv_one_half py_round_half fmul_one_half)
next
  show "py_round (fdiv 1 3) 5 = fl (33333 / 100000)"
    unfolding fdiv_one_third py_round_def decimal_round_third ..
next
  show "py_round (fdiv 1 320) 5 = fl (313 / 100000)"
    unfolding fdiv_one_320 py_round_def decimal_round_320 ..
qed

theorem equal_weights_witness:
  "\<exists>w. get_equal_weights demo_provider [''X'', ''Y'', ''Z''] demo_opts 100 =
          Inr (Some w, Some demo_returns)
      \<and> map_of w ''Y'' = Some (fmul 100 (fl (33333 / 100000)))
      \<and> map_of w ''Y'' = Some (1172800674837037 / 2 ^ 45)
      \<and> fst ` set w = {''X'', ''Y'', ''Z''}
      \<and> py_round (fdiv 1 320) 5 = 3608644309419431 / 2 ^ 60"
proof -
  note t = equal_weights [where stocks = "[''X'', ''Y'', ''Z'']", of 100]
  obtain w where w: "\<forall>yfm opts. get_equal_weights yfm [''X'', ''Y'', ''Z''] opts 100 =
        Inr (Some w, Some (fetch_returns yfm [''X'', ''Y'', ''Z''] opts))"
      "\<forall>s \<in> set [''X'', ''Y'', ''Z''].
         map_of w s =
         Some (fmul 100 (py_round (fdiv 1 (real (length [''X'', ''Y'', ''Z'']))) 5))"
      "fst ` set w = set [''X'', ''Y'', ''Z'']"
    using t [THEN conjunct1] by blast
  have r: "py_round (fdiv 1 3) 5 = fl (33333 / 100000)"
    by (rule t [THEN conjunct2, THEN conjunct2, THEN conjunct1])
  have "get_equal_weights demo_provider [''X'', ''Y'', ''Z''] demo_opts 100 =
      Inr (Some w, Some demo_returns)"
    using w(1) by (simp add: demo_fetch)
  moreover have y: "map_of w ''Y'' = Some (fmul 100 (fl (33333 / 100000)))"
    using w(2) r by simp
  moreover have "map_of w ''Y'' = Some (1172800674837037 / 2 ^ 45)"
    unfolding y fl_33333 fmul_hundred ..
  moreover have "fst ` set w = {''X'', ''Y'', ''Z''}"
    using w(3) by simp
  moreover have "py_round (fdiv 1 320) 5 = 3608644309419431 / 2 ^ 60"
    using t [THEN conjunct2, THEN conjunct2, THEN conjunct2] unfolding fl_313 .
  ultimately show ?thesis by blast
qed

subsection \<open>Frequency codes in lower case\<close>












subsection \<open>Random portfolios\<close>

lemma py_int_third: "0 \<le> n \<Longrightarrow> py_int (real_of_int n / 3) = n div 3"
proof -
  have "\<lfloor>real_of_int n / real_of_int 3\<rfloor> = n div 3"
    by (rule floor_divide_of_int_eq)
  moreover assume "0 \<le> n"
  ultimately show ?thesis by (simp add: py_int_def)
qed

lemma n_samples_binary64:
  assumes "0 \<le> n" and "n < 3 * 2 ^ 52"
  shows "py_int (fdiv (real_of_int n) 3) = py_int (real_of_int n / 3)"
proof (cases "n mod 3 = 0")
  case True
  then obtain k where k: "n = 3 * k" by auto
  have "\<bar>k\<bar> < 2 ^ 53" using assms k by simp
  then have "fl (of_int k * 2 powi 0) = of_int k * 2 powi 0"
    by (rule fl_representable) (simp add: emin_def)
  then show ?thesis by (simp add: fdiv_def k)
next
  case False
  define k where "k = n div 3"
  define x :: real where "x = real_of_int n / 3"
  have r: "n mod 3 = 1 \<or> n mod 3 = 2" using False by presburger
  have n: "n = 3 * k + n mod 3" by (simp add: k_def)
  have "real_of_int n = 3 * real_of_int k + real_of_int (n mod 3)"
    by (metis n of_int_add of_int_mult of_int_numeral)
  then have xk: "real_of_int k + 1 / 3 \<le> x" "x \<le> real_of_int k + 2 / 3"
    using r by (auto simp add: x_def)
  have k0: "0 \<le> k" using assms(1) by (simp add: k_def)
  have k52: "k < 2 ^ 52" using assms(2) by (simp add: k_def)
  then have "k + 1 \<le> 2 ^ 52" by simp
  then have "real_of_int (k + 1) \<le> real_of_int (2 ^ 52)" by (simp only: of_int_le_iff)
  then have x52: "x < 2 ^ 52" using xk(2) by simp
  have xlo: "1 / 3 \<le> x" using xk(1) k0 by simp
  then have xpos: "0 < x" by simp
  define e where "e = \<lfloor>log 2 x\<rfloor>"
  have p: "(2 :: real) powr real_of_int j = 2 powi j" for j
    by (rule powr_real_of_int') simp_all
  have "2 powr real_of_int e \<le> x \<and> x < 2 powr real_of_int (e + 1)"
    using floor_log_eq_powr_iff [of x 2 e] xpos by (simp add: e_def)
  then have b: "2 powi e \<le> x" "x < 2 powi (e + 1)" by (simp_all only: p)
  have "(2 :: real) powi e < 2 powi 52" using b(1) x52 by simp
  then have "e < 52" by (metis not_less one_le_numeral power_int_increasing)
  then have "e - 53 \<le> - 2" by simp
  then have "(2 :: real) powi (e - 53) \<le> 2 powi (- 2)"
    by (rule power_int_increasing) simp
  then have u: "(2 :: real) powi (e - 53) \<le> 1 / 4" by simp
  have "(2 :: real) powi (- 2) < 2 powi (e + 1)" using b(2) xlo by simp
  then have "- 2 < e + 1" by (metis not_less one_le_numeral power_int_increasing)
  then have "emin \<le> e" by (simp add: emin_def)
  then have "\<bar>fl x - x\<bar> \<le> 2 powi (e - 53)"
    using fl_error_ulp [of e x] b xpos by simp
  then have "\<bar>fl x - x\<bar> \<le> 1 / 4" using u by linarith
  then have "real_of_int k \<le> fl x" "fl x < real_of_int k + 1" using xk by linarith+
  then have "\<lfloor>fl x\<rfloor> = k" by (simp add: floor_eq_iff)
  moreover have "0 \<le> fl x" using \<open>real_of_int k \<le> fl x\<close> k0 by simp
  moreover have "\<lfloor>x\<rfloor> = k" using xk by (simp add: floor_eq_iff) 
  ultimately show ?thesis using xpos by (simp add: py_int_def fdiv_def x_def)
qed

lemma identity_length: "length (identity n) = n"
  by (simp add: identity_def)

lemma identity_row: "row \<in> set (identity n) \<Longrightarrow> length row = n"
  by (auto simp add: identity_def)

lemma column_of_transposed:
  assumes "j < length w" and "length (w ! j) = n"
  shows "map (\<lambda>row. row ! j) (map (\<lambda>i. map (\<lambda>row. row ! i) w) [0..<n]) = w ! j"
proof -
  have "map (\<lambda>row. row ! j) (map (\<lambda>i. map (\<lambda>row. row ! i) w) [0..<n]) =
      map (\<lambda>i. (w ! j) ! i) [0..<n]"
    using assms(1) by simp
  also have "\<dots> = w ! j"
    using assms(2) map_nth [of "w ! j"] by simp
  finally show ?thesis .
qed

lemma ones_simps: "length (ones n) = n" "ones n = replicate n 1"
  "map (\<lambda>x. x * c) (ones n) = replicate n c"
  by (simp_all add: ones_def)

lemma stacked_samples_eq:
  "stacked_samples np stocks m seed =
     (let d1 = dirichlet np (RandomState np seed) (replicate (length stocks) 1) m;
          d2 = dirichlet np (snd d1) (replicate (length stocks) 0.65) m;
          d3 = dirichlet np (snd d2) (replicate (length stocks) 2) m
      in fst d1 @ fst d2 @ fst d3 @ identity (length stocks))"
  by (simp add: stacked_samples_def Let_def case_prod_beta ones_simps)

lemma transposed_column:
  assumes j: "j < length w" and rows: "\<forall>row \<in> set w. length row = n"
  shows "map (\<lambda>row. row ! j) (map (map (\<lambda>x. c * x)) (map (\<lambda>i. map (\<lambda>row. row ! i) w) [0..<n])) =
           map (\<lambda>x. c * x) (w ! j)"
    and "map (\<lambda>row. row ! j) (map (\<lambda>i. map (\<lambda>row. row ! i) w) [0..<n]) = w ! j"
proof -
  have l: "length (w ! j) = n" using j rows by simp
  show t: "map (\<lambda>row. row ! j) (map (\<lambda>i. map (\<lambda>row. row ! i) w) [0..<n]) = w ! j"
    by (rule column_of_transposed [OF j l])
  have "map (\<lambda>row. row ! j) (map (map (\<lambda>x. c * x)) (map (\<lambda>i. map (\<lambda>row. row ! i) w) [0..<n])) =
      map (\<lambda>i. c * (w ! j ! i)) [0..<n]"
    using j by simp
  also have "\<dots> = map (\<lambda>x. c * x) (map (\<lambda>i. w ! j ! i) [0..<n])"
    by simp
  also have "map (\<lambda>i. w ! j ! i) [0..<n] = w ! j"
    using l map_nth [of "w ! j"] by simp
  finally show "map (\<lambda>row. row ! j)
      (map (map (\<lambda>x. c * x)) (map (\<lambda>i. map (\<lambda>row. row ! i) w) [0..<n])) =
      map (\<lambda>x. c * x) (w ! j)" .
qed

text \<open>
  C7. For every stock list of length \<open>N\<close> and every \<open>n_portfolios \<ge> 0\<close>,
  \<^verbatim>\<open>generate_random_portfolios\<close> returns a table over the \<open>N\<close> assets with exactly
  \<open>3 * (n_portfolios div 3) + N\<close> portfolio columns: three Dirichlet batches of
  \<open>n_portfolios div 3\<close> samples each, with the concentration 1, 0.65 and 2 per asset, followed
  by the \<open>N\<close> unit vectors (all multiplied by \<open>value\<close> when it is positive). The sampler is
  numpy's: it is assumed to return \<open>size\<close> rows, each as long as the concentration vector.
\<close>

theorem random_portfolios_shape:
  assumes nonneg: "0 \<le> n_portfolios"
    and count: "\<And>s a n. length (fst (dirichlet np s a n)) = n"
    and width: "\<And>s a n row. row \<in> set (fst (dirichlet np s a n)) \<Longrightarrow> length row = length a"
  shows "\<exists>f w1 w2 w3 s2 s3.
      generate_random_portfolios np stocks n_portfolios seed value = Inr f
    \<and> index f = stocks
    \<and> columns f = [0..<3 * nat (n_portfolios div 3) + length stocks]
    \<and> length (cells f) = length stocks
    \<and> stacked_samples np stocks (nat (n_portfolios div 3)) seed =
        w1 @ w2 @ w3 @ identity (length stocks)
    \<and> w1 = fst (dirichlet np (RandomState np seed) (replicate (length stocks) 1)
               (nat (n_portfolios div 3)))
    \<and> w2 = fst (dirichlet np s2 (replicate (length stocks) 0.65) (nat (n_portfolios div 3)))
    \<and> w3 = fst (dirichlet np s3 (replicate (length stocks) 2) (nat (n_portfolios div 3)))
    \<and> length w1 = nat (n_portfolios div 3)
    \<and> length w2 = nat (n_portfolios div 3)
    \<and> length w3 = nat (n_portfolios div 3)
    \<and> (\<forall>j < 3 * nat (n_portfolios div 3) + length stocks.
          map (\<lambda>row. row ! j) (cells f) =
          map (\<lambda>x. (if value > 0 then value else 1) * x)
            ((w1 @ w2 @ w3 @ identity (length stocks)) ! j))"
proof -
  let ?m = "nat (n_portfolios div 3)"
  let ?n = "length stocks"
  let ?d1 = "dirichlet np (RandomState np seed) (replicate ?n 1) ?m"
  let ?d2 = "dirichlet np (snd ?d1) (replicate ?n 0.65) ?m"
  let ?d3 = "dirichlet np (snd ?d2) (replicate ?n 2) ?m"
  let ?w = "fst ?d1 @ fst ?d2 @ fst ?d3 @ identity ?n"
  let ?c = "if value > 0 then value else 1"
  have st: "stacked_samples np stocks ?m seed = ?w"
    by (simp add: stacked_samples_eq Let_def)
  have len: "length ?w = 3 * ?m + ?n"
    by (simp add: count identity_length)
  have rows: "\<forall>row \<in> set ?w. length row = ?n"
    using width identity_row by fastforce
  have df: "DataFrame ?w stocks = Inr \<lparr>index = [0..<length ?w], columns = stocks, cells = ?w\<rparr>"
    using rows unfolding DataFrame_def by auto
  let ?t = "T \<lparr>index = [0..<length ?w], columns = stocks, cells = ?w\<rparr>"
  let ?f = "if value > 0 then scale_frame value ?t else ?t"
  have n3: "py_int (real_of_int n_portfolios / 3) = n_portfolios div 3"
    by (rule py_int_third [OF nonneg])
  have d0: "0 \<le> n_portfolios div 3" using nonneg by simp
  have g: "generate_random_portfolios np stocks n_portfolios seed value = Inr ?f"
    unfolding generate_random_portfolios_def Let_def n3 st df using d0 by simp
  have i: "index ?f = stocks"
    by (simp add: T_def scale_frame_def)
  have c: "columns ?f = [0..<3 * ?m + ?n]"
    using len by (simp add: T_def scale_frame_def)
  have l: "length (cells ?f) = ?n"
    by (simp add: T_def scale_frame_def)
  have col: "\<forall>j < 3 * ?m + ?n. map (\<lambda>row. row ! j) (cells ?f) = map (\<lambda>x. ?c * x) (?w ! j)"
  proof (intro allI impI)
    fix j assume "j < 3 * ?m + ?n"
    then have j: "j < length ?w" using len by simp
    show "map (\<lambda>row. row ! j) (cells ?f) = map (\<lambda>x. ?c * x) (?w ! j)"
    proof (cases "value > 0")
      case True
      then show ?thesis
        using transposed_column(1) [OF j rows, of "value"]
        by (simp add: T_def scale_frame_def)
    next
      case False
      then show ?thesis
        using transposed_column(2) [OF j rows]
        by (simp add: T_def)
    qed
  qed
  show ?thesis
    using g i c l st col count by blast
qed

theorem random_portfolios_shape_witness:
  "\<exists>f. generate_random_portfolios demo_numpy [''A'', ''B''] 7 123 1 = Inr f
      \<and> index f = [''A'', ''B'']
      \<and> length (columns f) = 8
      \<and> length (cells f) = 2
      \<and> map (\<lambda>row. row ! 7) (cells f) = [0, 1]"
proof -
  have n: "(0 :: int) \<le> 7" by simp
  have c: "length (fst (dirichlet demo_numpy s a n)) = n" for s a n
    by (simp add: demo_numpy_def)
  have w: "row \<in> set (fst (dirichlet demo_numpy s a n)) \<Longrightarrow> length row = length a"
    for s a n row
    by (auto simp add: demo_numpy_def)
  obtain f w1 w2 w3 where f: "generate_random_portfolios demo_numpy [''A'', ''B''] 7 123 1 = Inr f"
    "index f = [''A'', ''B'']"
    "columns f = [0..<3 * nat (7 div 3) + length [''A'', ''B'']]"
    "length (cells f) = length [''A'', ''B'']"
    "length w1 = nat (7 div 3)" "length w2 = nat (7 div 3)" "length w3 = nat (7 div 3)"
    "\<forall>j < 3 * nat (7 div 3) + length [''A'', ''B''].
          map (\<lambda>row. row ! j) (cells f) =
          map (\<lambda>x. (if (1 :: real) > 0 then 1 else 1) * x)
            ((w1 @ w2 @ w3 @ identity (length [''A'', ''B''])) ! j)"
  proof -
    have "\<exists>f w1 w2 w3 s2 s3.
        generate_random_portfolios demo_numpy [''A'', ''B''] 7 123 1 = Inr f
      \<and> index f = [''A'', ''B'']
      \<and> columns f = [0..<3 * nat (7 div 3) + length [''A'', ''B'']]
      \<and> length (cells f) = length [''A'', ''B'']
      \<and> stacked_samples demo_numpy [''A'', ''B''] (nat (7 div 3)) 123 =
          w1 @ w2 @ w3 @ identity (length [''A'', ''B''])
      \<and> w1 = fst (dirichlet demo_numpy (RandomState demo_numpy 123)
                 (replicate (length [''A'', ''B'']) 1) (nat (7 div 3)))
      \<and> w2 = fst (dirichlet demo_numpy s2 (replicate (length [''A'', ''B'']) 0.65)
                 (nat (7 div 3)))
      \<and> w3 = fst (dirichlet demo_numpy s3 (replicate (length [''A'', ''B'']) 2)
                 (nat (7 div 3)))
      \<and> length w1 = nat (7 div 3)
      \<and> length w2 = nat (7 div 3)
      \<and> length w3 = nat (7 div 3)
      \<and> (\<forall>j < 3 * nat (7 div 3) + length [''A'', ''B''].
            map (\<lambda>row. row ! j) (cells f) =
            map (\<lambda>x. (if (1 :: real) > 0 then 1 else 1) * x)
              ((w1 @ w2 @ w3 @ identity (length [''A'', ''B''])) ! j))"
      by (rule random_portfolios_shape [OF n c]) (rule w)
    then show ?thesis using that by blast
  qed
  have l: "length (columns f) = 8" using f(3) by simp
  have "map (\<lambda>row. row ! 7) (cells f) =
      map (\<lambda>x. 1 * x) ((w1 @ w2 @ w3 @ identity (length [''A'', ''B''])) ! 7)"
    using f(8) by simp
  also have "(w1 @ w2 @ w3 @ identity (length [''A'', ''B''])) ! 7 = identity 2 ! 1"
    using f(5,6,7) by (simp add: nth_append numeral_2_eq_2)
  also have "identity 2 ! 1 = [0, 1]"
    by (simp add: identity_def numeral_2_eq_2)
  finally have k: "map (\<lambda>row. row ! 7) (cells f) = [0, 1]" by simp
  show ?thesis using f(1,2,4) l k by auto
qed

end
